theory Spec2Isabelle
  imports Main "HOL-Library.AList"
begin

section \<open>Python values, errors and the collaborators of the runtime handler\<close>

text \<open>
  The handler of \<^verbatim>\<open>mlrun/runtimes/base.py\<close> works on plain Python dictionaries (run
  records, pod and custom-object dictionaries). They are embedded as a small value type.
  A dictionary is an association list in insertion order with string keys. A
  \<^verbatim>\<open>datetime\<close> is the number of microseconds since the epoch; the string that
  \<^verbatim>\<open>datetime.isoformat()\<close> renders for such an instant is \<open>PIsoStr\<close>, every other string
  is \<open>PStr\<close>.
\<close>

datatype pyval =
    PNone
  | PStr string
  | PIsoStr int
  | PTime int
  | PList "pyval list"
  | PDict "(string \<times> pyval) list"

datatype error =
    KeyError
  | TypeError
  | AttributeError
  | ValueError
  | MLRunNotFoundError
  | RuntimeError
  | ApiException

datatype level = Debug | Info | Warning

text \<open>Python truthiness: \<^verbatim>\<open>if x\<close>, \<^verbatim>\<open>not x\<close>.\<close>

fun truthy :: "pyval \<Rightarrow> bool" where
  "truthy PNone = False"
| "truthy (PStr s) = (s \<noteq> [])"
| "truthy (PIsoStr t) = True"
| "truthy (PTime t) = True"
| "truthy (PList xs) = (xs \<noteq> [])"
| "truthy (PDict kvs) = (kvs \<noteq> [])"

text \<open>
  \<^verbatim>\<open>d.get(key, default)\<close>: only a dictionary has the method (AttributeError otherwise), and
  an unhashable key (a list or a dictionary) raises TypeError.
\<close>

fun py_get :: "pyval \<Rightarrow> pyval \<Rightarrow> pyval \<Rightarrow> error + pyval" where
  "py_get (PDict kvs) (PStr k) dflt = Inr (case map_of kvs k of None \<Rightarrow> dflt | Some v \<Rightarrow> v)"
| "py_get (PDict kvs) (PList ks) dflt = Inl TypeError"
| "py_get (PDict kvs) (PDict ks) dflt = Inl TypeError"
| "py_get (PDict kvs) PNone dflt = Inr dflt"
| "py_get (PDict kvs) (PIsoStr t) dflt = Inr dflt"
| "py_get (PDict kvs) (PTime t) dflt = Inr dflt"
| "py_get PNone key dflt = Inl AttributeError"
| "py_get (PStr s) key dflt = Inl AttributeError"
| "py_get (PIsoStr t) key dflt = Inl AttributeError"
| "py_get (PTime t) key dflt = Inl AttributeError"
| "py_get (PList xs) key dflt = Inl AttributeError"

text \<open>\<^verbatim>\<open>d[key]\<close> with a string key: KeyError when the key is missing, TypeError on a non-dictionary.\<close>

fun py_getitem :: "pyval \<Rightarrow> string \<Rightarrow> error + pyval" where
  "py_getitem (PDict kvs) k = (case map_of kvs k of None \<Rightarrow> Inl KeyError | Some v \<Rightarrow> Inr v)"
| "py_getitem PNone k = Inl TypeError"
| "py_getitem (PStr s) k = Inl TypeError"
| "py_getitem (PIsoStr t) k = Inl TypeError"
| "py_getitem (PTime t) k = Inl TypeError"
| "py_getitem (PList xs) k = Inl TypeError"

text \<open>\<^verbatim>\<open>x in [s1, s2, ...]\<close> for a list of strings compares with \<^verbatim>\<open>==\<close> and never raises.\<close>

definition py_in :: "pyval \<Rightarrow> string list \<Rightarrow> bool" where
  "py_in v strs = (v \<in> set (map PStr strs))"

text \<open>\<^verbatim>\<open>run.setdefault("status", {})[key] = value\<close>\<close>

fun set_status :: "pyval \<Rightarrow> string \<Rightarrow> pyval \<Rightarrow> error + pyval" where
  "set_status (PDict kvs) k v =
     (case map_of kvs ''status'' of
        None \<Rightarrow> Inr (PDict (AList.update ''status'' (PDict [(k, v)]) kvs))
      | Some (PDict st) \<Rightarrow> Inr (PDict (AList.update ''status'' (PDict (AList.update k v st)) kvs))
      | Some other \<Rightarrow> Inl TypeError)"
| "set_status other k v = Inl AttributeError"

text \<open>\<^verbatim>\<open>datetime.fromisoformat(s)\<close>\<close>

fun fromisoformat :: "pyval \<Rightarrow> error + int" where
  "fromisoformat (PIsoStr t) = Inr t"
| "fromisoformat (PStr s) = Inl ValueError"
| "fromisoformat other = Inl TypeError"

text \<open>\<^verbatim>\<open>timedelta(seconds=float(n))\<close> in microseconds.\<close>

definition timedelta_seconds :: "int \<Rightarrow> int" where
  "timedelta_seconds n = n * 1000000"

text \<open>
  \<^verbatim>\<open>mlrun.config.config\<close> and the constant classes \<^verbatim>\<open>RunStates\<close> and \<^verbatim>\<open>PodPhases\<close> of
  \<^verbatim>\<open>mlrun/runtimes/constants.py\<close> are parameters of the model.
\<close>

record config =
  runs_monitoring_interval :: int
  runs_monitoring_missing_runtime_resources_debouncing_interval :: int
  runtime_resources_deletion_grace_period :: int
  default_project :: string

record constants =
  terminal_states :: "string list"
  non_terminal_states :: "string list"
  run_state_error :: string
  terminal_phases :: "string list"
  pod_phase_to_run_state :: "pyval \<Rightarrow> error + pyval"

text \<open>
  The collaborators: the run database (an association list keyed by project and uid, in
  storage order, with the trace of \<^verbatim>\<open>store_run\<close> calls), the Kubernetes helper (the pods and
  custom objects it lists, its label-selector semantics, the trace of its calls), the log
  archive, and the logger.
\<close>

datatype k8s_call =
    ListPods string
  | ListCrds string
  | DeletePod pyval
  | DeleteCrd pyval

record world =
  runs :: "((pyval \<times> pyval) \<times> pyval) list"
  store_calls :: "(pyval \<times> pyval \<times> pyval) list"
  in_cluster :: bool
  pods :: "pyval list"
  crds :: "pyval list"
  selects :: "string \<Rightarrow> pyval \<Rightarrow> bool"
  k8s_calls :: "k8s_call list"
  log_files :: "(pyval \<times> pyval) list"
  k8s_logs :: "((pyval \<times> pyval) \<times> string) list"
  stored_logs :: "(pyval \<times> pyval \<times> string) list"
  logger :: "(level \<times> string) list"

definition log_msg :: "level \<Rightarrow> string \<Rightarrow> world \<Rightarrow> world" where
  "log_msg lv msg w = w\<lparr>logger := logger w @ [(lv, msg)]\<rparr>"

text \<open>\<^verbatim>\<open>db.read_run(db_session, uid, project)\<close>\<close>

definition read_run :: "pyval \<Rightarrow> pyval \<Rightarrow> world \<Rightarrow> error + pyval" where
  "read_run uid project w =
     (case map_of (runs w) (project, uid) of
        None \<Rightarrow> Inl MLRunNotFoundError
      | Some r \<Rightarrow> Inr r)"

text \<open>\<^verbatim>\<open>db.store_run(db_session, run, uid, project)\<close>\<close>

definition store_run :: "pyval \<Rightarrow> pyval \<Rightarrow> pyval \<Rightarrow> world \<Rightarrow> world" where
  "store_run run uid project w =
     w\<lparr>runs := AList.update (project, uid) run (runs w),
       store_calls := store_calls w @ [(project, uid, run)]\<rparr>"

section \<open>The run-state reconciler\<close>

text \<open>
  \<^verbatim>\<open>BaseRuntimeHandler._ensure_run_state\<close> (a leading underscore is not an Isabelle
  identifier). \<open>now\<close> is the clock. The result has the returned pair or the exception
  raised, the run dictionary as the call leaves it (the source mutates the dictionary
  it was given), and the collaborators.
\<close>

text \<open>The block under \<^verbatim>\<open>if run_state not in RunStates.terminal_states()\<close>: whether to debounce.\<close>

definition terminal_debounce :: "config \<Rightarrow> int \<Rightarrow> pyval \<Rightarrow> error + bool" where
  "terminal_debounce cfg now run =
     (case py_get run (PStr ''status'') (PDict []) of
        Inl e \<Rightarrow> Inl e
      | Inr st \<Rightarrow>
         (case py_get st (PStr ''last_update'') PNone of
            Inl e \<Rightarrow> Inl e
          | Inr last_update_str \<Rightarrow>
             if last_update_str \<noteq> PNone then
               (case fromisoformat last_update_str of
                  Inl e \<Rightarrow> Inl e
                | Inr last_update \<Rightarrow>
                    Inr (last_update > now - timedelta_seconds (runs_monitoring_interval cfg)))
             else Inr False))"

text \<open>The last four statements: set state and last update, store, return.\<close>

definition update_run_state ::
  "int \<Rightarrow> pyval \<Rightarrow> pyval \<Rightarrow> pyval \<Rightarrow> pyval \<Rightarrow> world \<Rightarrow> (error + bool \<times> pyval) \<times> pyval \<times> world" where
  "update_run_state now project uid run_state run w =
     (let w1 = log_msg Info ''Updating run state'' w in
      case set_status run ''state'' run_state of
        Inl e \<Rightarrow> (Inl e, run, w1)
      | Inr run1 \<Rightarrow>
         (case set_status run1 ''last_update'' (PIsoStr now) of
            Inl e \<Rightarrow> (Inl e, run1, w1)
          | Inr run2 \<Rightarrow> (Inr (True, run_state), run2, store_run run2 uid project w1)))"

definition ensure_run_state ::
  "config \<Rightarrow> constants \<Rightarrow> int \<Rightarrow> pyval \<Rightarrow> pyval \<Rightarrow> pyval \<Rightarrow> pyval \<Rightarrow> pyval \<Rightarrow> bool \<Rightarrow> world
     \<Rightarrow> (error + bool \<times> pyval) \<times> pyval \<times> world" where
  "ensure_run_state cfg cs now project uid name run_state run search_run w =
     (let run0 = (if run = PNone then PDict [] else run);
          run1 = (if search_run
                  then (case read_run uid project w of Inl e \<Rightarrow> PDict [] | Inr r \<Rightarrow> r)
                  else run0);
          w1 = (if \<not> truthy run1
                then log_msg Warning ''Run not found. A new run will be created'' w
                else w);
          run2 = (if \<not> truthy run1
                  then PDict [(''metadata'',
                          PDict [(''project'', project), (''name'', name), (''uid'', uid)])]
                  else run1)
      in case py_get run2 (PStr ''status'') (PDict []) of
           Inl e \<Rightarrow> (Inl e, run2, w1)
         | Inr st \<Rightarrow>
            (case py_get st (PStr ''state'') PNone of
               Inl e \<Rightarrow> (Inl e, run2, w1)
             | Inr db_run_state \<Rightarrow>
                if truthy db_run_state then
                  if db_run_state = run_state then (Inr (False, run_state), run2, w1)
                  else if py_in db_run_state (terminal_states cs) then
                    (case (if \<not> py_in run_state (terminal_states cs)
                           then terminal_debounce cfg now run2 else Inr False) of
                       Inl e \<Rightarrow> (Inl e, run2, w1)
                     | Inr True \<Rightarrow>
                         (Inr (False, run_state), run2,
                          log_msg Warning
                            ''Monitoring found non-terminal state on runtime resource but record has recently updated to terminal state. Debouncing''
                            w1)
                     | Inr False \<Rightarrow>
                         update_run_state now project uid run_state run2
                           (log_msg Warning
                              ''Run record has terminal state but monitoring found different state on runtime resource. Changing''
                              w1))
                  else update_run_state now project uid run_state run2 w1
                else update_run_state now project uid run_state run2 w1))"

section \<open>Runs stuck in a non-terminal state\<close>

text \<open>
  The monitor loop's map \<^verbatim>\<open>run_runtime_resources_map\<close>, project to uid to
  \<^verbatim>\<open>{"name": name}\<close>. Its keys come from resource labels and may be \<^verbatim>\<open>None\<close>, so it is
  an association list over values; the inner dictionary is represented by the name.
\<close>

type_synonym resources_map = "(pyval \<times> (pyval \<times> pyval) list) list"

text \<open>Lists and dictionaries are unhashable: using one as a dictionary key raises TypeError.\<close>

fun hashable :: "pyval \<Rightarrow> bool" where
  "hashable (PList xs) = False"
| "hashable (PDict kvs) = False"
| "hashable other = True"

text \<open>\<^verbatim>\<open>run_runtime_resources_map and run_uid in run_runtime_resources_map.get(project, {})\<close>\<close>

definition resource_found :: "resources_map \<Rightarrow> pyval \<Rightarrow> pyval \<Rightarrow> error + bool" where
  "resource_found m project run_uid =
     (if m = [] then Inr False
      else if \<not> hashable project \<or> \<not> hashable run_uid then Inl TypeError
      else Inr (run_uid \<in> set (map fst (case map_of m project of None \<Rightarrow> [] | Some d \<Rightarrow> d))))"

text \<open>A sequence of \<^verbatim>\<open>run.setdefault("status", {})[key] = value\<close> statements.\<close>

fun set_status_all :: "pyval \<Rightarrow> (string \<times> pyval) list \<Rightarrow> error option \<times> pyval" where
  "set_status_all run [] = (None, run)"
| "set_status_all run ((k, v) # kvs) =
     (case set_status run k v of
        Inl e \<Rightarrow> (Some e, run)
      | Inr run' \<Rightarrow> set_status_all run' kvs)"

text \<open>Such a sequence followed by \<^verbatim>\<open>db.store_run(db_session, run, run_uid, project)\<close>.\<close>

definition store_status_updates ::
  "pyval \<Rightarrow> pyval \<Rightarrow> pyval \<Rightarrow> (string \<times> pyval) list \<Rightarrow> world \<Rightarrow> (error + unit) \<times> pyval \<times> world" where
  "store_status_updates project run_uid run kvs w =
     (case set_status_all run kvs of
        (Some e, run') \<Rightarrow> (Inl e, run', w)
      | (None, run') \<Rightarrow> (Inr (), run', store_run run' run_uid project w))"

text \<open>
  \<^verbatim>\<open>BaseRuntimeHandler._ensure_run_not_stuck_on_non_terminal_state\<close>. The result has the
  exception raised if any, the run dictionary as the call leaves it, and the collaborators.
\<close>

definition ensure_run_not_stuck_on_non_terminal_state ::
  "config \<Rightarrow> constants \<Rightarrow> int \<Rightarrow> pyval \<Rightarrow> pyval \<Rightarrow> pyval \<Rightarrow> resources_map \<Rightarrow> world
     \<Rightarrow> (error + unit) \<times> pyval \<times> world" where
  "ensure_run_not_stuck_on_non_terminal_state cfg cs now project run_uid run
       run_runtime_resources_map w =
     (case py_get run (PStr ''status'') (PDict []) of
        Inl e \<Rightarrow> (Inl e, run, w)
      | Inr st \<Rightarrow>
         (case py_get st (PStr ''state'') PNone of
            Inl e \<Rightarrow> (Inl e, run, w)
          | Inr db_run_state \<Rightarrow>
             if \<not> truthy db_run_state then
               store_status_updates project run_uid run
                 [(''state'', PStr (run_state_error cs)), (''last_update'', PIsoStr now)]
                 (log_msg Info
                    ''Runs monitoring found a run without state, updating to a terminal state'' w)
             else if py_in db_run_state (non_terminal_states cs) then
               (case resource_found run_runtime_resources_map project run_uid of
                  Inl e \<Rightarrow> (Inl e, run, w)
                | Inr True \<Rightarrow> (Inr (), run, w)
                | Inr False \<Rightarrow>
                 (case py_get st (PStr ''last_update'') PNone of
                    Inl e \<Rightarrow> (Inl e, run, w)
                  | Inr last_update_str \<Rightarrow>
                     if last_update_str = PNone then
                       store_status_updates project run_uid run
                         [(''last_update'', PIsoStr now)]
                         (log_msg Info
                            ''Runs monitoring found run in non-terminal state without last update time set, updating last update time to now, to be able to evaluate next time if something changed''
                            w)
                     else
                       (case fromisoformat last_update_str of
                          Inl e \<Rightarrow> (Inl e, run, w)
                        | Inr last_update \<Rightarrow>
                           if last_update > now - timedelta_seconds
                                (runs_monitoring_missing_runtime_resources_debouncing_interval cfg)
                           then
                             (Inr (), run,
                              log_msg Warning
                                ''Monitoring did not discover a runtime resource that corresponded to a run in a non-terminal state. but record has recently updated. Debouncing''
                                w)
                           else
                             store_status_updates project run_uid run
                               [(''state'', PStr (run_state_error cs)),
                                (''reason'', PStr ''A runtime resource related to this run could not be found''),
                                (''last_update'', PIsoStr now)]
                               (log_msg Info ''Updating run state'' w))))
             else (Inr (), run, w)))"

section \<open>The status resolver\<close>

text \<open>
  The loop of \<^verbatim>\<open>_resolve_pod_status_info\<close> over the container statuses, with
  \<^verbatim>\<open>last_container_completion_time\<close> as accumulator. \<^verbatim>\<open>a < b\<close> is modelled for two
  datetimes, which is what the Kubernetes client gives in \<^verbatim>\<open>finished_at\<close>; for every
  other pair the model raises TypeError, as Python does when an operand is \<^verbatim>\<open>None\<close>.
\<close>

fun py_lt :: "pyval \<Rightarrow> pyval \<Rightarrow> error + bool" where
  "py_lt (PTime a) (PTime b) = Inr (a < b)"
| "py_lt a b = Inl TypeError"

fun latest_completion :: "pyval \<Rightarrow> pyval list \<Rightarrow> error + pyval" where
  "latest_completion last_time [] = Inr last_time"
| "latest_completion last_time (container_status # rest) =
     (case py_get container_status (PStr ''state'') (PDict []) of
        Inl e \<Rightarrow> Inl e
      | Inr st \<Rightarrow>
         (case py_get st (PStr ''terminated'') PNone of
            Inl e \<Rightarrow> Inl e
          | Inr terminated \<Rightarrow>
             if truthy terminated then
               (case py_get terminated (PStr ''finished_at'') PNone of
                  Inl e \<Rightarrow> Inl e
                | Inr container_completion_time \<Rightarrow>
                   if \<not> truthy last_time then latest_completion container_completion_time rest
                   else
                     (case py_lt last_time container_completion_time of
                        Inl e \<Rightarrow> Inl e
                      | Inr True \<Rightarrow> latest_completion container_completion_time rest
                      | Inr False \<Rightarrow> latest_completion last_time rest))
             else latest_completion last_time rest))"

text \<open>
  \<^verbatim>\<open>for container_status in pod["status"].get("container_statuses", [])\<close>: a list is
  iterated; \<^verbatim>\<open>None\<close> and a datetime are not iterable; a non-empty string or dictionary
  yields strings, on which \<^verbatim>\<open>.get\<close> raises AttributeError.
\<close>

fun for_container_statuses :: "pyval \<Rightarrow> error + pyval" where
  "for_container_statuses (PList xs) = latest_completion PNone xs"
| "for_container_statuses PNone = Inl TypeError"
| "for_container_statuses (PTime t) = Inl TypeError"
| "for_container_statuses (PStr s) = (if s = [] then Inr PNone else Inl AttributeError)"
| "for_container_statuses (PIsoStr t) = Inl AttributeError"
| "for_container_statuses (PDict kvs) = (if kvs = [] then Inr PNone else Inl AttributeError)"

text \<open>
  \<^verbatim>\<open>BaseRuntimeHandler._resolve_pod_status_info\<close>: the exception raised, or the triple
  (in terminal state, last container completion time, run state).
\<close>

definition resolve_pod_status_info :: "constants \<Rightarrow> pyval \<Rightarrow> error + bool \<times> pyval \<times> pyval" where
  "resolve_pod_status_info cs pod =
     (case py_getitem pod ''status'' of
        Inl e \<Rightarrow> Inl e
      | Inr status \<Rightarrow>
         (case py_getitem status ''phase'' of
            Inl e \<Rightarrow> Inl e
          | Inr phase \<Rightarrow>
             (case pod_phase_to_run_state cs phase of
                Inl e \<Rightarrow> Inl e
              | Inr run_state \<Rightarrow>
                 if py_in phase (terminal_phases cs) then
                   (case py_get status (PStr ''container_statuses'') (PList []) of
                      Inl e \<Rightarrow> Inl e
                    | Inr container_statuses \<Rightarrow>
                       (case for_container_statuses container_statuses of
                          Inl e \<Rightarrow> Inl e
                        | Inr last_container_completion_time \<Rightarrow>
                            Inr (True, last_container_completion_time, run_state)))
                 else Inr (False, PNone, run_state))))"

text \<open>\<^verbatim>\<open>BaseRuntimeHandler._resolve_runtime_resource_run\<close>: project, uid and name from the labels.\<close>

definition resolve_runtime_resource_run :: "config \<Rightarrow> pyval \<Rightarrow> error + pyval \<times> pyval \<times> pyval" where
  "resolve_runtime_resource_run cfg runtime_resource =
     (case py_get runtime_resource (PStr ''metadata'') (PDict []) of
        Inl e \<Rightarrow> Inl e
      | Inr metadata \<Rightarrow>
         (case py_get metadata (PStr ''labels'') (PDict []) of
            Inl e \<Rightarrow> Inl e
          | Inr labels \<Rightarrow>
             (case py_get labels (PStr ''mlrun/project'') PNone of
                Inl e \<Rightarrow> Inl e
              | Inr project \<Rightarrow>
                 (case py_get labels (PStr ''mlrun/uid'') PNone of
                    Inl e \<Rightarrow> Inl e
                  | Inr uid \<Rightarrow>
                     (case py_get labels (PStr ''mlrun/name'') (PStr ''no-name'') of
                        Inl e \<Rightarrow> Inl e
                      | Inr name \<Rightarrow>
                          Inr (if \<not> truthy project then PStr (default_project cfg) else project,
                               uid, name))))))"

section \<open>The handler's policy and the log archive\<close>

text \<open>
  The methods a runtime handler overrides, with the values of \<^verbatim>\<open>BaseRuntimeHandler\<close> in
  \<open>base_handler\<close>: \<^verbatim>\<open>kind\<close>, the values of \<^verbatim>\<open>class_modes\<close>, \<^verbatim>\<open>_get_crd_info\<close>,
  \<^verbatim>\<open>_are_resources_coupled_to_run_object\<close>, \<^verbatim>\<open>_expect_pods_without_uid\<close> and
  \<^verbatim>\<open>_resolve_crd_object_status_info\<close>.
\<close>

record handler =
  kind :: string
  class_modes :: "string list"
  crd_info :: "string \<times> string \<times> string"
  are_resources_coupled_to_run_object :: bool
  expect_pods_without_uid :: bool
  resolve_crd_object_status_info :: "pyval \<Rightarrow> error + bool \<times> pyval \<times> pyval"

definition base_handler :: handler where
  "base_handler =
     \<lparr>kind = ''base'', class_modes = [], crd_info = ([], [], []),
      are_resources_coupled_to_run_object = False, expect_pods_without_uid = False,
      resolve_crd_object_status_info = (\<lambda>crd_object. Inr (False, PNone, PNone))\<rparr>"



text \<open>
  The Kubernetes helper: \<^verbatim>\<open>list_pods\<close> and \<^verbatim>\<open>list_namespaced_custom_object\<close> return what
  the label selector selects and \<^verbatim>\<open>delete_pod\<close> removes the pods of that name; each call
  is recorded. The calls succeed.
\<close>

definition list_pods :: "string \<Rightarrow> world \<Rightarrow> pyval list \<times> world" where
  "list_pods label_selector w =
     (filter (selects w label_selector) (pods w),
      w\<lparr>k8s_calls := k8s_calls w @ [ListPods label_selector]\<rparr>)"


definition name_of :: "pyval \<Rightarrow> pyval" where
  "name_of resource =
     (case py_getitem resource ''metadata'' of
        Inl e \<Rightarrow> PNone
      | Inr metadata \<Rightarrow> (case py_getitem metadata ''name'' of Inl e \<Rightarrow> PNone | Inr n \<Rightarrow> n))"

definition delete_pod :: "pyval \<Rightarrow> world \<Rightarrow> world" where
  "delete_pod name w =
     w\<lparr>pods := filter (\<lambda>p. name_of p \<noteq> name) (pods w),
       k8s_calls := k8s_calls w @ [DeletePod name]\<rparr>"

text \<open>
  \<^verbatim>\<open>BaseRuntimeHandler._ensure_run_logs_collected\<close> over the log archive: whether a log
  file exists for the run, the logs Kubernetes still has for it, and \<^verbatim>\<open>store_log\<close>.
\<close>

definition ensure_run_logs_collected :: "pyval \<Rightarrow> pyval \<Rightarrow> world \<Rightarrow> world" where
  "ensure_run_logs_collected project uid w =
     (if (project, uid) \<notin> set (log_files w) then
        (case map_of (k8s_logs w) (project, uid) of
           None \<Rightarrow> w
         | Some logs_from_k8s \<Rightarrow>
            if logs_from_k8s \<noteq> [] then
              (log_msg Info ''Storing run logs'' w)
                \<lparr>log_files := log_files w @ [(project, uid)],
                 stored_logs := stored_logs w @ [(project, uid, logs_from_k8s)]\<rparr>
            else w)
      else w)"

section \<open>Observations on run records and the run database\<close>

definition examined :: "pyval \<Rightarrow> pyval \<Rightarrow> pyval \<Rightarrow> bool \<Rightarrow> world \<Rightarrow> pyval" where
  "examined project uid run search_run w =
     (if search_run then (case read_run uid project w of Inl e \<Rightarrow> PDict [] | Inr r \<Rightarrow> r)
      else if run = PNone then PDict [] else run)"

definition state_of :: "pyval \<Rightarrow> pyval option" where
  "state_of run =
     (case py_get run (PStr ''status'') (PDict []) of
        Inl e \<Rightarrow> None
      | Inr st \<Rightarrow> (case py_get st (PStr ''state'') PNone of Inl e \<Rightarrow> None | Inr v \<Rightarrow> Some v))"

definition last_update_of :: "pyval \<Rightarrow> pyval option" where
  "last_update_of run =
     (case py_get run (PStr ''status'') (PDict []) of
        Inl e \<Rightarrow> None
      | Inr st \<Rightarrow> (case py_get st (PStr ''last_update'') PNone of Inl e \<Rightarrow> None | Inr v \<Rightarrow> Some v))"

definition reason_of :: "pyval \<Rightarrow> pyval option" where
  "reason_of run =
     (case py_get run (PStr ''status'') (PDict []) of
        Inl e \<Rightarrow> None
      | Inr st \<Rightarrow> (case py_get st (PStr ''reason'') PNone of Inl e \<Rightarrow> None | Inr v \<Rightarrow> Some v))"

definition stored_run :: "pyval \<Rightarrow> pyval \<Rightarrow> world \<Rightarrow> pyval option" where
  "stored_run project uid w = map_of (runs w) (project, uid)"

section \<open>The deletion engine for pods\<close>

text \<open>
  \<^verbatim>\<open>BaseRuntimeHandler._pre_deletion_runtime_resource_run_actions\<close>: the reconciler is
  called with its defaults (no run handed in, \<^verbatim>\<open>search_run=True\<close>).
\<close>

definition pre_deletion_runtime_resource_run_actions ::
  "config \<Rightarrow> constants \<Rightarrow> handler \<Rightarrow> int \<Rightarrow> pyval \<Rightarrow> pyval \<Rightarrow> world \<Rightarrow> (error + unit) \<times> world" where
  "pre_deletion_runtime_resource_run_actions cfg cs h now runtime_resource run_state w =
     (case resolve_runtime_resource_run cfg runtime_resource of
        Inl e \<Rightarrow> (Inl e, w)
      | Inr (project, uid, name) \<Rightarrow>
         if \<not> truthy uid then
           if \<not> expect_pods_without_uid h then
             (Inl ValueError,
              log_msg Warning
                ''Could not resolve run uid from runtime resource. Skipping pre-deletion actions'' w)
           else (Inr (), w)
         else
           (case ensure_run_state cfg cs now project uid name run_state PNone True
                   (log_msg Info
                      ''Performing pre-deletion actions before cleaning up runtime resources'' w) of
              (Inl e, run', w') \<Rightarrow> (Inl e, w')
            | (Inr changed, run', w') \<Rightarrow> (Inr (), ensure_run_logs_collected project uid w')))"

text \<open>\<^verbatim>\<open>pod.metadata.name\<close>, read in the dictionary of the pod.\<close>

definition pod_metadata_name :: "pyval \<Rightarrow> error + pyval" where
  "pod_metadata_name pod =
     (case py_getitem pod ''metadata'' of
        Inl e \<Rightarrow> Inl e
      | Inr metadata \<Rightarrow> py_getitem metadata ''name'')"

text \<open>
  The handler of the outer \<^verbatim>\<open>except Exception\<close> of the loop: it formats
  \<^verbatim>\<open>pod.metadata.name\<close> into the warning, so a pod without a name makes the handler
  itself raise, out of the loop.
\<close>

definition cleanup_failed :: "pyval \<Rightarrow> world \<Rightarrow> (error + bool) \<times> world" where
  "cleanup_failed pod w =
     (case pod_metadata_name pod of
        Inl e \<Rightarrow> (Inl e, w)
      | Inr n \<Rightarrow> (Inr False, log_msg Warning ''Cleanup failed processing pod. Continuing'' w))"

text \<open>
  The grace-period test under \<^verbatim>\<open>if not force\<close>: whether the loop \<^verbatim>\<open>continue\<close>s.
  \<^verbatim>\<open>last_update + timedelta(...)\<close> raises TypeError unless \<^verbatim>\<open>last_update\<close> is a datetime.
\<close>

definition skip_pod :: "int \<Rightarrow> bool \<Rightarrow> int \<Rightarrow> bool \<Rightarrow> pyval \<Rightarrow> error + bool" where
  "skip_pod now force grace_period in_terminal_state last_update =
     (if \<not> force then
        if \<not> in_terminal_state then Inr True
        else if last_update \<noteq> PNone then
          (case last_update of
             PTime t \<Rightarrow> Inr (t + timedelta_seconds grace_period > now)
           | other \<Rightarrow> Inl TypeError)
        else Inr False
      else Inr False)"

text \<open>
  The body of \<^verbatim>\<open>for pod in pods.items\<close> in \<^verbatim>\<open>_delete_pod_resources\<close>: whether the pod
  was deleted and appended to \<^verbatim>\<open>deleted_pods\<close>, or the exception that leaves the loop.
  The clock does not advance during a call.
\<close>

definition delete_pod_resources_step ::
  "config \<Rightarrow> constants \<Rightarrow> handler \<Rightarrow> int \<Rightarrow> bool \<Rightarrow> int \<Rightarrow> pyval \<Rightarrow> world \<Rightarrow> (error + bool) \<times> world" where
  "delete_pod_resources_step cfg cs h now force grace_period pod w =
     (case resolve_pod_status_info cs pod of
        Inl e \<Rightarrow> cleanup_failed pod w
      | Inr (in_terminal_state, last_update, run_state) \<Rightarrow>
         (case skip_pod now force grace_period in_terminal_state last_update of
            Inl e \<Rightarrow> cleanup_failed pod w
          | Inr True \<Rightarrow> (Inr False, w)
          | Inr False \<Rightarrow>
             (case (if are_resources_coupled_to_run_object h
                    then pre_deletion_runtime_resource_run_actions cfg cs h now pod run_state w
                    else (Inr (), w)) of
                (Inl e, w1) \<Rightarrow>
                  (case pod_metadata_name pod of
                     Inl e' \<Rightarrow> cleanup_failed pod w1
                   | Inr n \<Rightarrow>
                       (Inr True,
                        delete_pod n
                          (log_msg Warning ''Failure in pod run pre-deletion actions. Continuing'' w1)))
              | (Inr u, w1) \<Rightarrow>
                  (case pod_metadata_name pod of
                     Inl e' \<Rightarrow> cleanup_failed pod w1
                   | Inr n \<Rightarrow> (Inr True, delete_pod n w1)))))"

fun delete_pod_resources_loop ::
  "config \<Rightarrow> constants \<Rightarrow> handler \<Rightarrow> int \<Rightarrow> bool \<Rightarrow> int \<Rightarrow> pyval list \<Rightarrow> pyval list \<Rightarrow> world
     \<Rightarrow> (error + pyval list) \<times> world" where
  "delete_pod_resources_loop cfg cs h now force grace_period [] deleted_pods w =
     (Inr deleted_pods, w)"
| "delete_pod_resources_loop cfg cs h now force grace_period (pod # rest) deleted_pods w =
     (case delete_pod_resources_step cfg cs h now force grace_period pod w of
        (Inl e, w') \<Rightarrow> (Inl e, w')
      | (Inr True, w') \<Rightarrow>
          delete_pod_resources_loop cfg cs h now force grace_period rest (deleted_pods @ [pod]) w'
      | (Inr False, w') \<Rightarrow>
          delete_pod_resources_loop cfg cs h now force grace_period rest deleted_pods w')"

text \<open>
  Modelled from the spec: \<^verbatim>\<open>mlrun.utils.retry_until_successful\<close> is not among the
  sources. The spec has it poll the listing at a fixed interval until none of the deleted
  names remain or a fixed timeout elapses, the timeout being a hard failure. The
  collaborators do not change between two polls here, so the first poll decides.
  \<^verbatim>\<open>_wait_for_pods_deletion\<close> itself is from the source.
\<close>

fun pod_names :: "pyval list \<Rightarrow> error + pyval list" where
  "pod_names [] = Inr []"
| "pod_names (pod # rest) =
     (case pod_metadata_name pod of
        Inl e \<Rightarrow> Inl e
      | Inr n \<Rightarrow> (case pod_names rest of Inl e \<Rightarrow> Inl e | Inr ns \<Rightarrow> Inr (n # ns)))"

definition wait_for_pods_deletion :: "pyval list \<Rightarrow> string \<Rightarrow> world \<Rightarrow> (error + unit) \<times> world" where
  "wait_for_pods_deletion deleted_pods label_selector w =
     (case pod_names deleted_pods of
        Inl e \<Rightarrow> (Inl e, w)
      | Inr deleted_pod_names \<Rightarrow>
         if deleted_pod_names \<noteq> [] then
           (case list_pods label_selector (log_msg Debug ''Waiting for pods deletion'' w) of
              (existing, w') \<Rightarrow>
                (case pod_names existing of
                   Inl e \<Rightarrow> (Inl e, w')
                 | Inr existing_pod_names \<Rightarrow>
                    if set existing_pod_names \<inter> set deleted_pod_names \<noteq> {}
                    then (Inl RuntimeError, w')
                    else (Inr (), w')))
         else (Inr (), w))"

text \<open>\<^verbatim>\<open>BaseRuntimeHandler._delete_pod_resources\<close>\<close>

definition delete_pod_resources ::
  "config \<Rightarrow> constants \<Rightarrow> handler \<Rightarrow> int \<Rightarrow> string \<Rightarrow> bool \<Rightarrow> int option \<Rightarrow> world
     \<Rightarrow> (error + pyval list) \<times> world" where
  "delete_pod_resources cfg cs h now label_selector force grace_period w =
     (case list_pods label_selector w of
        (listed, w1) \<Rightarrow>
          (case delete_pod_resources_loop cfg cs h now force
                  (case grace_period of
                     None \<Rightarrow> runtime_resources_deletion_grace_period cfg
                   | Some g \<Rightarrow> g)
                  listed [] w1 of
             (Inl e, w2) \<Rightarrow> (Inl e, w2)
           | (Inr deleted_pods, w2) \<Rightarrow>
               (case wait_for_pods_deletion deleted_pods label_selector w2 of
                  (Inl e, w3) \<Rightarrow> (Inl e, w3)
                | (Inr u, w3) \<Rightarrow> (Inr deleted_pods, w3))))"

section \<open>The monitor loop\<close>

text \<open>
  \<^verbatim>\<open>project_run_uid_map\<close>, project to uid to run, has the shape of the resources map.
  \<^verbatim>\<open>db.list_runs(db_session, project="*", states=states)\<close> returns the stored records in
  storage order, of the given states if any.
\<close>

definition list_runs :: "string list option \<Rightarrow> world \<Rightarrow> pyval list" where
  "list_runs states w =
     (case states of
        None \<Rightarrow> map snd (runs w)
      | Some ss \<Rightarrow>
          filter (\<lambda>r. case state_of r of None \<Rightarrow> False | Some v \<Rightarrow> py_in v ss) (map snd (runs w)))"

text \<open>\<^verbatim>\<open>m.setdefault(project, {})\<close> and \<^verbatim>\<open>m[project][uid] = value\<close> on a two-level map.\<close>

definition setdefault_project :: "resources_map \<Rightarrow> pyval \<Rightarrow> resources_map" where
  "setdefault_project m project =
     (if project \<in> set (map fst m) then m else m @ [(project, [])])"

definition inner_of :: "resources_map \<Rightarrow> pyval \<Rightarrow> (pyval \<times> pyval) list" where
  "inner_of m project = (case map_of m project of None \<Rightarrow> [] | Some d \<Rightarrow> d)"

definition set_inner :: "resources_map \<Rightarrow> pyval \<Rightarrow> pyval \<Rightarrow> pyval \<Rightarrow> resources_map" where
  "set_inner m project uid v =
     AList.update project (AList.update uid v (inner_of m project)) m"

text \<open>
  The body of \<^verbatim>\<open>for run in runs\<close> in \<^verbatim>\<open>_list_runs_for_monitoring\<close> on the three
  accumulators \<^verbatim>\<open>project_run_uid_map\<close>, \<^verbatim>\<open>run_with_missing_data\<close> and
  \<^verbatim>\<open>duplicated_runs\<close>. The source passes the list \<^verbatim>\<open>["metadata"]\<close> to \<^verbatim>\<open>.get\<close>.
\<close>

definition list_runs_step ::
  "pyval \<Rightarrow> resources_map \<times> pyval list \<times> pyval \<Rightarrow> error + resources_map \<times> pyval list \<times> pyval" where
  "list_runs_step run acc =
     (case acc of (project_run_uid_map, run_with_missing_data, duplicated_runs) \<Rightarrow>
       (case py_get run (PStr ''metadata'') (PDict []) of
          Inl e \<Rightarrow> Inl e
        | Inr metadata \<Rightarrow>
           (case py_get metadata (PStr ''project'') PNone of
              Inl e \<Rightarrow> Inl e
            | Inr project \<Rightarrow>
               (case py_get metadata (PStr ''uid'') PNone of
                  Inl e \<Rightarrow> Inl e
                | Inr uid \<Rightarrow>
                   if \<not> truthy uid \<or> \<not> truthy project then
                     Inr (project_run_uid_map, run_with_missing_data @ [metadata], duplicated_runs)
                   else if \<not> hashable project \<or> \<not> hashable uid then Inl TypeError
                   else
                     (case map_of (inner_of (setdefault_project project_run_uid_map project) project) uid of
                        None \<Rightarrow>
                          Inr (set_inner (setdefault_project project_run_uid_map project) project uid run,
                               run_with_missing_data, duplicated_runs)
                      | Some current_run \<Rightarrow>
                          if truthy current_run then
                            (case py_get current_run (PList [PStr ''metadata'']) PNone of
                               Inl e \<Rightarrow> Inl e
                             | Inr monitored \<Rightarrow>
                                (case py_get run (PList [PStr ''metadata'']) PNone of
                                   Inl e \<Rightarrow> Inl e
                                 | Inr duplicated \<Rightarrow>
                                     Inr (setdefault_project project_run_uid_map project,
                                          run_with_missing_data,
                                          PDict [(''monitored_run'', monitored),
                                                 (''duplicated_run'', duplicated)])))
                          else
                            Inr (set_inner (setdefault_project project_run_uid_map project) project uid run,
                                 run_with_missing_data, duplicated_runs))))))"

fun list_runs_loop ::
  "pyval list \<Rightarrow> resources_map \<times> pyval list \<times> pyval \<Rightarrow> error + resources_map \<times> pyval list \<times> pyval" where
  "list_runs_loop [] acc = Inr acc"
| "list_runs_loop (run # rest) acc =
     (case list_runs_step run acc of
        Inl e \<Rightarrow> Inl e
      | Inr acc' \<Rightarrow> list_runs_loop rest acc')"

text \<open>\<^verbatim>\<open>BaseRuntimeHandler._list_runs_for_monitoring\<close>\<close>

definition list_runs_for_monitoring ::
  "string list option \<Rightarrow> world \<Rightarrow> (error + resources_map) \<times> world" where
  "list_runs_for_monitoring states w =
     (case list_runs_loop (list_runs states w) ([], [], PList []) of
        Inl e \<Rightarrow> (Inl e, w)
      | Inr (project_run_uid_map, run_with_missing_data, duplicated_runs) \<Rightarrow>
          (Inr project_run_uid_map,
           (if run_with_missing_data \<noteq> []
            then log_msg Warning ''Found runs with missing data. They will not be monitored''
            else id)
             ((if truthy duplicated_runs
               then log_msg Warning
                      ''Found duplicated runs (same uid). Heuristically monitoring the first one found''
               else id) w)))"

text \<open>
  \<^verbatim>\<open>BaseRuntimeHandler._monitor_runtime_resource\<close>. The run taken from
  \<^verbatim>\<open>project_run_uid_map\<close> is the dictionary the reconciler mutates, so the map is
  returned with it. \<^verbatim>\<open>_update_ui_url\<close> does nothing in the base class.
\<close>

definition monitor_runtime_resource ::
  "config \<Rightarrow> constants \<Rightarrow> handler \<Rightarrow> int \<Rightarrow> resources_map \<Rightarrow> pyval \<Rightarrow> bool \<Rightarrow> pyval \<Rightarrow> pyval \<Rightarrow> pyval
     \<Rightarrow> world \<Rightarrow> (error + unit) \<times> resources_map \<times> world" where
  "monitor_runtime_resource cfg cs h now project_run_uid_map runtime_resource
       runtime_resource_is_crd project0 uid0 name0 w =
     (case (if \<not> truthy project0 \<and> \<not> truthy uid0 \<and> \<not> truthy name0
            then resolve_runtime_resource_run cfg runtime_resource
            else Inr (project0, uid0, name0)) of
        Inl e \<Rightarrow> (Inl e, project_run_uid_map, w)
      | Inr (project, uid, name) \<Rightarrow>
         if \<not> truthy project \<or> \<not> truthy uid then (Inr (), project_run_uid_map, w)
         else if \<not> hashable project \<or> \<not> hashable uid then (Inl TypeError, project_run_uid_map, w)
         else
           (case (if runtime_resource_is_crd
                  then resolve_crd_object_status_info h runtime_resource
                  else resolve_pod_status_info cs runtime_resource) of
              Inl e \<Rightarrow> (Inl e, project_run_uid_map, w)
            | Inr (in_terminal_state, last_update, run_state) \<Rightarrow>
               (case ensure_run_state cfg cs now project uid name run_state
                       (case map_of (inner_of project_run_uid_map project) uid of
                          None \<Rightarrow> PNone
                        | Some run \<Rightarrow> run)
                       False w of
                  (res, run', w') \<Rightarrow>
                    (case (case map_of (inner_of project_run_uid_map project) uid of
                             None \<Rightarrow> project_run_uid_map
                           | Some run \<Rightarrow>
                               if truthy run then set_inner project_run_uid_map project uid run'
                               else project_run_uid_map) of
                       m' \<Rightarrow>
                         (case res of
                            Inl e \<Rightarrow> (Inl e, m', w')
                          | Inr (changed, updated_run_state) \<Rightarrow>
                              if py_in updated_run_state (terminal_states cs)
                              then (Inr (), m', ensure_run_logs_collected project uid w')
                              else (Inr (), m', w'))))))"

text \<open>
  The first loop of \<^verbatim>\<open>monitor_runs\<close>, over the runtime resources. The warning of its
  \<^verbatim>\<open>except\<close> reads \<^verbatim>\<open>runtime_resource["metadata"]["name"]\<close>.
\<close>

fun monitor_resources_loop ::
  "config \<Rightarrow> constants \<Rightarrow> handler \<Rightarrow> int \<Rightarrow> bool \<Rightarrow> pyval list \<Rightarrow> resources_map \<Rightarrow> resources_map
     \<Rightarrow> world \<Rightarrow> (error + resources_map \<times> resources_map) \<times> world" where
  "monitor_resources_loop cfg cs h now is_crd [] project_run_uid_map run_runtime_resources_map w =
     (Inr (project_run_uid_map, run_runtime_resources_map), w)"
| "monitor_resources_loop cfg cs h now is_crd (runtime_resource # rest) project_run_uid_map
       run_runtime_resources_map w =
     (case resolve_runtime_resource_run cfg runtime_resource of
        Inl e \<Rightarrow> (Inl e, w)
      | Inr (project, uid, name) \<Rightarrow>
         if \<not> hashable project \<or> \<not> hashable uid then (Inl TypeError, w)
         else
           (case monitor_runtime_resource cfg cs h now project_run_uid_map runtime_resource is_crd
                   project uid name w of
              (Inl e, m', w') \<Rightarrow>
                (case pod_metadata_name runtime_resource of
                   Inl e' \<Rightarrow> (Inl e', w')
                 | Inr n \<Rightarrow>
                     monitor_resources_loop cfg cs h now is_crd rest m'
                       (set_inner (setdefault_project run_runtime_resources_map project) project uid name)
                       (log_msg Warning ''Failed monitoring runtime resource. Continuing'' w'))
            | (Inr u, m', w') \<Rightarrow>
                monitor_resources_loop cfg cs h now is_crd rest m'
                  (set_inner (setdefault_project run_runtime_resources_map project) project uid name)
                  w'))"





section \<open>Views of a pod and the grace-period filter of the specification\<close>

text \<open>
  What the resolver's loop reads of one container status: a container that is not
  terminated, or one terminated with a datetime in \<^verbatim>\<open>finished_at\<close>.
\<close>

datatype container_view = NotTerminated | FinishedAt int

definition container_view_of :: "pyval \<Rightarrow> container_view option" where
  "container_view_of container_status =
     (case py_get container_status (PStr ''state'') (PDict []) of
        Inl e \<Rightarrow> None
      | Inr st \<Rightarrow>
         (case py_get st (PStr ''terminated'') PNone of
            Inl e \<Rightarrow> None
          | Inr terminated \<Rightarrow>
             if truthy terminated then
               (case py_get terminated (PStr ''finished_at'') PNone of
                  Inr (PTime t) \<Rightarrow> Some (FinishedAt t)
                | other \<Rightarrow> None)
             else Some NotTerminated))"

fun finished_times :: "container_view list \<Rightarrow> int list" where
  "finished_times [] = []"
| "finished_times (NotTerminated # vs) = finished_times vs"
| "finished_times (FinishedAt t # vs) = t # finished_times vs"

text \<open>
  The pod dictionaries on which the resolver does not raise: a status with a phase the
  phase table accepts and a list of such container statuses. The view is the phase and
  the completion times of the containers.
\<close>

definition pod_view :: "constants \<Rightarrow> pyval \<Rightarrow> (pyval \<times> int list) option" where
  "pod_view cs pod =
     (case py_getitem pod ''status'' of
        Inl e \<Rightarrow> None
      | Inr status \<Rightarrow>
         (case py_getitem status ''phase'' of
            Inl e \<Rightarrow> None
          | Inr phase \<Rightarrow>
             (case pod_phase_to_run_state cs phase of
                Inl e \<Rightarrow> None
              | Inr run_state \<Rightarrow>
                 (case py_get status (PStr ''container_statuses'') (PList []) of
                    Inr (PList container_statuses) \<Rightarrow>
                      if list_all (\<lambda>c. container_view_of c \<noteq> None) container_statuses
                      then Some (phase,
                                 finished_times (map (\<lambda>c. the (container_view_of c)) container_statuses))
                      else None
                  | other \<Rightarrow> None))))"

text \<open>
  The specification's filter with \<^verbatim>\<open>force=false\<close>, on the pod alone: the reported
  phase is terminal, and the time the pod became terminal is unknown or \<open>now\<close> minus it is
  at least the grace period. That time is the latest container completion time across
  the pod's containers, unknown when the pod reports none.
\<close>

definition phase_of :: "pyval \<Rightarrow> pyval option" where
  "phase_of pod =
     (case py_getitem pod ''status'' of
        Inl e \<Rightarrow> None
      | Inr status \<Rightarrow> (case py_getitem status ''phase'' of Inl e \<Rightarrow> None | Inr phase \<Rightarrow> Some phase))"

definition completion_time_of :: "pyval \<Rightarrow> int list" where
  "completion_time_of container_status =
     (case container_view_of container_status of
        Some (FinishedAt t) \<Rightarrow> [t]
      | other \<Rightarrow> [])"

definition completion_times :: "pyval \<Rightarrow> int list" where
  "completion_times pod =
     (case py_getitem pod ''status'' of
        Inl e \<Rightarrow> []
      | Inr status \<Rightarrow>
         (case py_get status (PStr ''container_statuses'') (PList []) of
            Inr (PList container_statuses) \<Rightarrow> concat (map completion_time_of container_statuses)
          | other \<Rightarrow> []))"

definition grace_period_selected :: "constants \<Rightarrow> int \<Rightarrow> int \<Rightarrow> pyval \<Rightarrow> bool" where
  "grace_period_selected cs now grace_period pod =
     (case phase_of pod of
        None \<Rightarrow> False
      | Some phase \<Rightarrow>
          py_in phase (terminal_phases cs)
          \<and> (completion_times pod = []
               \<or> now - Max (set (completion_times pod)) \<ge> timedelta_seconds grace_period))"

section \<open>Instances for the closed examples\<close>

definition example_config :: config where
  "example_config =
     \<lparr>runs_monitoring_interval = 30,
      runs_monitoring_missing_runtime_resources_debouncing_interval = 600,
      runtime_resources_deletion_grace_period = 60,
      default_project = ''default''\<rparr>"

definition example_pod_phase_to_run_state :: "pyval \<Rightarrow> error + pyval" where
  "example_pod_phase_to_run_state phase =
     (if phase = PStr ''Succeeded'' then Inr (PStr ''completed'')
      else if phase = PStr ''Failed'' then Inr (PStr ''error'')
      else if phase = PStr ''Pending'' then Inr (PStr ''pending'')
      else if phase = PStr ''Running'' then Inr (PStr ''running'')
      else if phase = PStr ''Unknown'' then Inr (PStr ''unknown'')
      else Inl ValueError)"

definition example_constants :: constants where
  "example_constants =
     \<lparr>terminal_states = [''completed'', ''error'', ''aborted''],
      non_terminal_states = [''pending'', ''running'', ''unknown'', ''created''],
      run_state_error = ''error'',
      terminal_phases = [''Succeeded'', ''Failed''],
      pod_phase_to_run_state = example_pod_phase_to_run_state\<rparr>"

definition example_run :: "string \<Rightarrow> pyval \<Rightarrow> pyval" where
  "example_run st lu =
     PDict [(''metadata'', PDict [(''project'', PStr ''p''), (''name'', PStr ''n''), (''uid'', PStr ''u1''),
                                  (''labels'', PDict [(''kind'', PStr ''job'')])]),
            (''status'', PDict [(''state'', PStr st), (''last_update'', lu)])]"

definition example_world :: "pyval list \<Rightarrow> pyval list \<Rightarrow> world" where
  "example_world rs ps =
     \<lparr>runs = map (\<lambda>r. ((PStr ''p'', PStr ''u1''), r)) rs, store_calls = [], in_cluster = True, pods = ps, crds = [],
      selects = (\<lambda>sel pod. True), k8s_calls = [], log_files = [], k8s_logs = [],
      stored_logs = [], logger = []\<rparr>"

definition stored_state :: "pyval \<Rightarrow> pyval \<Rightarrow> world \<Rightarrow> pyval option" where
  "stored_state project uid w =
     (case stored_run project uid w of None \<Rightarrow> None | Some r \<Rightarrow> state_of r)"

definition stored_last_update :: "pyval \<Rightarrow> pyval \<Rightarrow> world \<Rightarrow> pyval option" where
  "stored_last_update project uid w =
     (case stored_run project uid w of None \<Rightarrow> None | Some r \<Rightarrow> last_update_of r)"

definition stored_reason :: "pyval \<Rightarrow> pyval \<Rightarrow> world \<Rightarrow> pyval option" where
  "stored_reason project uid w =
     (case stored_run project uid w of None \<Rightarrow> None | Some r \<Rightarrow> reason_of r)"

definition example_pod :: "string \<Rightarrow> (string \<times> pyval) list \<Rightarrow> string \<Rightarrow> int list \<Rightarrow> pyval" where
  "example_pod pod_name labels phase finished =
     PDict [(''metadata'', PDict [(''name'', PStr pod_name), (''labels'', PDict labels)]),
            (''status'',
             PDict [(''phase'', PStr phase),
                    (''container_statuses'',
                     PList (map (\<lambda>t. PDict [(''state'',
                                   PDict [(''terminated'', PDict [(''finished_at'', PTime t)])])])
                                finished))])]"

definition example_handler :: handler where
  "example_handler =
     \<lparr>kind = ''job'', class_modes = [''kubejob''], crd_info = ([], [], []),
      are_resources_coupled_to_run_object = True, expect_pods_without_uid = False,
      resolve_crd_object_status_info = (\<lambda>crd_object. Inr (False, PNone, PNone))\<rparr>"


definition example_pod_without_container_statuses :: pyval where
  "example_pod_without_container_statuses =
     PDict [(''metadata'',
             PDict [(''name'', PStr ''pod-1''),
                    (''labels'', PDict [(''mlrun/project'', PStr ''p''), (''mlrun/uid'', PStr ''u1'')])]),
            (''status'', PDict [(''phase'', PStr ''Failed''), (''container_statuses'', PNone)])]"

section \<open>Properties of the run-state reconciler\<close>

lemma state_of_truthy: "state_of run = Some v \<Longrightarrow> truthy v \<Longrightarrow> truthy run"
  apply (cases run; simp add: state_of_def)
  apply (auto split: sum.splits option.splits)
  done

lemma state_of_status:
  "state_of run = Some v \<Longrightarrow>
   \<exists>st. py_get run (PStr ''status'') (PDict []) = Inr st \<and> py_get st (PStr ''state'') PNone = Inr v"
  by (auto simp: state_of_def split: sum.splits)

lemma state_of_dict:
  assumes "state_of run = Some v0"
  obtains kvs where "run = PDict kvs" "map_of kvs ''status'' = None"
  | kvs st where "run = PDict kvs" "map_of kvs ''status'' = Some (PDict st)"
proof (cases run)
  case (PDict kvs)
  show ?thesis
  proof (cases "map_of kvs ''status''")
    case None
    then show ?thesis using that(1) PDict by blast
  next
    case (Some a)
    then have "\<exists>st. a = PDict st" using assms PDict
      by (cases a) (auto simp: state_of_def)
    then show ?thesis using that(2) PDict Some by blast
  qed
qed (use assms in \<open>auto simp: state_of_def\<close>)

lemma set_status_ok:
  assumes "state_of run = Some v0"
  shows "\<exists>r. set_status run k v = Inr r
           \<and> state_of r = (if k = ''state'' then Some v else state_of run)
           \<and> last_update_of r = (if k = ''last_update'' then Some v else last_update_of run)"
  using assms
  by (rule state_of_dict)
     (auto simp: state_of_def last_update_of_def update_conv' split: option.splits)

lemma update_run_state_ok:
  assumes "state_of run = Some v0"
  shows "\<exists>run'. update_run_state now project uid run_state run w =
            (Inr (True, run_state), run', store_run run' uid project (log_msg Info ''Updating run state'' w))
          \<and> state_of run' = Some run_state \<and> last_update_of run' = Some (PIsoStr now)"
proof -
  obtain r1 where r1: "set_status run ''state'' run_state = Inr r1" "state_of r1 = Some run_state"
    using set_status_ok[OF assms, of "''state''" run_state] by auto
  obtain r2 where r2: "set_status r1 ''last_update'' (PIsoStr now) = Inr r2"
      "state_of r2 = Some run_state" "last_update_of r2 = Some (PIsoStr now)"
    using set_status_ok[OF r1(2), of "''last_update''" "PIsoStr now"] r1(2) by auto
  show ?thesis using r1 r2 by (simp add: update_run_state_def Let_def)
qed

lemma stored_run_store: "stored_run project uid (store_run run uid project w) = Some run"
  by (simp add: stored_run_def store_run_def update_conv')

lemma store_calls_store:
  "store_calls (store_run run uid project (log_msg lv m w)) = store_calls w @ [(project, uid, run)]"
  by (simp add: store_run_def log_msg_def)

lemma stored_state_store:
  "stored_state project uid (store_run run uid project w) = state_of run"
  "stored_last_update project uid (store_run run uid project w) = last_update_of run"
  by (simp_all add: stored_state_def stored_last_update_def stored_run_store)

lemma ensure_run_state_found:
  assumes "state_of (examined project uid run search_run w) = Some v" and "truthy v"
  shows "ensure_run_state cfg cs now project uid name run_state run search_run w =
     (let r = examined project uid run search_run w in
      if v = run_state then (Inr (False, run_state), r, w)
      else if py_in v (terminal_states cs) then
        (case (if \<not> py_in run_state (terminal_states cs)
               then terminal_debounce cfg now r else Inr False) of
           Inl e \<Rightarrow> (Inl e, r, w)
         | Inr True \<Rightarrow>
             (Inr (False, run_state), r,
              log_msg Warning
                ''Monitoring found non-terminal state on runtime resource but record has recently updated to terminal state. Debouncing''
                w)
         | Inr False \<Rightarrow>
             update_run_state now project uid run_state r
               (log_msg Warning
                  ''Run record has terminal state but monitoring found different state on runtime resource. Changing''
                  w))
      else update_run_state now project uid run_state r w)"
proof -
  let ?r = "examined project uid run search_run w"
  have tr: "truthy ?r" using assms state_of_truthy by blast
  obtain st where st: "py_get ?r (PStr ''status'') (PDict []) = Inr st"
     and s: "py_get st (PStr ''state'') PNone = Inr v"
    using state_of_status[OF assms(1)] by blast
  show ?thesis
    unfolding ensure_run_state_def Let_def examined_def[symmetric]
    using tr st s assms(2) by simp
qed

lemma terminal_debounce_eval:
  assumes "state_of r = Some v" and "last_update_of r = Some lu"
  shows "terminal_debounce cfg now r =
     (if lu \<noteq> PNone then
        (case fromisoformat lu of Inl e \<Rightarrow> Inl e
         | Inr t \<Rightarrow> Inr (t > now - timedelta_seconds (runs_monitoring_interval cfg)))
      else Inr False)"
  using assms
  by (auto simp: terminal_debounce_def state_of_def last_update_of_def split: sum.splits)

text \<open>
  Claim C1, as the code has it. A run whose stored state is terminal is observed with a
  non-terminal state. When the record's \<^verbatim>\<open>last_update\<close> is set and later than
  \<open>now - runs_monitoring_interval\<close>, the observation is ignored: nothing is stored, the
  run database is unchanged, a warning is logged and the call returns
  \<open>(False, run_state)\<close>. When \<^verbatim>\<open>last_update\<close> is unset or not later than that, the
  observed state is stored over the terminal one and the call returns
  \<open>(True, run_state)\<close>.
\<close>

theorem terminal_lock_debounced:
  assumes "state_of (examined project uid run search_run w) = Some (PStr s)"
    and "s \<noteq> []"
    and "s \<in> set (terminal_states cs)"
    and "\<not> py_in run_state (terminal_states cs)"
    and "last_update_of (examined project uid run search_run w) = Some lu"
    and "lu = PNone \<or> lu = PIsoStr t"
  shows "(lu = PIsoStr t \<and> t > now - timedelta_seconds (runs_monitoring_interval cfg) \<longrightarrow>
            fst (ensure_run_state cfg cs now project uid name run_state run search_run w)
              = Inr (False, run_state)
          \<and> runs (snd (snd (ensure_run_state cfg cs now project uid name run_state run search_run w)))
              = runs w
          \<and> store_calls (snd (snd (ensure_run_state cfg cs now project uid name run_state run search_run w)))
              = store_calls w
          \<and> logger (snd (snd (ensure_run_state cfg cs now project uid name run_state run search_run w)))
              = logger w @ [(Warning,
                  ''Monitoring found non-terminal state on runtime resource but record has recently updated to terminal state. Debouncing'')])
       \<and> (\<not> (lu = PIsoStr t \<and> t > now - timedelta_seconds (runs_monitoring_interval cfg)) \<longrightarrow>
            fst (ensure_run_state cfg cs now project uid name run_state run search_run w)
              = Inr (True, run_state)
          \<and> stored_state project uid
               (snd (snd (ensure_run_state cfg cs now project uid name run_state run search_run w)))
              = Some run_state)"
proof -
  let ?r = "examined project uid run search_run w"
  have ne: "PStr s \<noteq> run_state" using assms(3,4) by (auto simp: py_in_def)
  have pin: "py_in (PStr s) (terminal_states cs)" using assms(3) by (simp add: py_in_def)
  have deb: "terminal_debounce cfg now ?r =
      Inr (lu = PIsoStr t \<and> t > now - timedelta_seconds (runs_monitoring_interval cfg))"
    using terminal_debounce_eval[OF assms(1) assms(5), of cfg now] assms(6) by auto
  have ev: "ensure_run_state cfg cs now project uid name run_state run search_run w =
      (if lu = PIsoStr t \<and> t > now - timedelta_seconds (runs_monitoring_interval cfg)
       then (Inr (False, run_state), ?r,
              log_msg Warning
                ''Monitoring found non-terminal state on runtime resource but record has recently updated to terminal state. Debouncing''
                w)
       else update_run_state now project uid run_state ?r
               (log_msg Warning
                  ''Run record has terminal state but monitoring found different state on runtime resource. Changing''
                  w))"
    using ensure_run_state_found[OF assms(1), of cfg cs now name run_state] assms(2,4) ne pin deb
    by (simp add: Let_def split: bool.splits)
  obtain run' where up: "update_run_state now project uid run_state ?r
               (log_msg Warning
                  ''Run record has terminal state but monitoring found different state on runtime resource. Changing''
                  w) = (Inr (True, run_state), run', store_run run' uid project (log_msg Info ''Updating run state'' (log_msg Warning
                  ''Run record has terminal state but monitoring found different state on runtime resource. Changing''
                  w)))" "state_of run' = Some run_state"
    using update_run_state_ok[OF assms(1)] by blast
  show ?thesis
    unfolding ev using up by (simp add: stored_state_store log_msg_def)
qed

text \<open>
  Claim C1 as stated fails: it promises that the stored terminal state survives whatever
  \<^verbatim>\<open>last_update\<close> is. A run stored as \<open>completed\<close> two hours before \<open>now\<close>, with a
  monitoring interval of 30 seconds, is observed \<open>running\<close>; after the call the stored
  state is \<open>running\<close>.
\<close>

theorem terminal_lock_counterexample:
  "stored_state (PStr ''p'') (PStr ''u1'') (example_world [example_run ''completed'' (PIsoStr 0)] [])
     = Some (PStr ''completed'')
   \<and> py_in (PStr ''completed'') (terminal_states example_constants)
   \<and> \<not> py_in (PStr ''running'') (terminal_states example_constants)
   \<and> stored_state (PStr ''p'') (PStr ''u1'')
        (snd (snd (ensure_run_state example_config example_constants 7200000000 (PStr ''p'')
           (PStr ''u1'') (PStr ''n'') (PStr ''running'') PNone True
           (example_world [example_run ''completed'' (PIsoStr 0)] []))))
     = Some (PStr ''running'')"
  by (simp add: ensure_run_state_def example_config_def example_constants_def example_world_def
      example_run_def read_run_def py_in_def terminal_debounce_def timedelta_seconds_def
      update_run_state_def store_run_def log_msg_def stored_run_def stored_state_def
      state_of_def Let_def)

lemma example_world_examined:
  "examined (PStr ''p'') (PStr ''u1'') PNone True (example_world [r] ps) = r"
  by (simp add: examined_def read_run_def example_world_def)

lemma example_run_obs:
  "state_of (example_run st lu) = Some (PStr st)"
  "last_update_of (example_run st lu) = Some lu"
  by (simp_all add: state_of_def last_update_of_def example_run_def)

text \<open>
  The debounced case of C1 at a concrete input: the run was stored as \<open>completed\<close> ten
  seconds before \<open>now\<close>.
\<close>

theorem terminal_lock_debounced_witness:
  "fst (ensure_run_state example_config example_constants 7200000000 (PStr ''p'') (PStr ''u1'')
          (PStr ''n'') (PStr ''running'') PNone True
          (example_world [example_run ''completed'' (PIsoStr 7190000000)] []))
     = Inr (False, PStr ''running'')
   \<and> runs (snd (snd (ensure_run_state example_config example_constants 7200000000 (PStr ''p'')
          (PStr ''u1'') (PStr ''n'') (PStr ''running'') PNone True
          (example_world [example_run ''completed'' (PIsoStr 7190000000)] []))))
     = runs (example_world [example_run ''completed'' (PIsoStr 7190000000)] [])"
proof -
  let ?w = "example_world [example_run ''completed'' (PIsoStr 7190000000)] []"
  have h1: "state_of (examined (PStr ''p'') (PStr ''u1'') PNone True ?w) = Some (PStr ''completed'')"
    by (simp add: example_world_examined example_run_obs)
  have h2: "''completed'' \<noteq> []" by simp
  have h3: "''completed'' \<in> set (terminal_states example_constants)"
    by (simp add: example_constants_def)
  have h4: "\<not> py_in (PStr ''running'') (terminal_states example_constants)"
    by (simp add: example_constants_def py_in_def)
  have h5: "last_update_of (examined (PStr ''p'') (PStr ''u1'') PNone True ?w)
              = Some (PIsoStr 7190000000)"
    by (simp add: example_world_examined example_run_obs)
  have h6: "PIsoStr 7190000000 = PNone \<or> PIsoStr 7190000000 = PIsoStr 7190000000" by simp
  have h7: "(7190000000::int) > 7200000000 - timedelta_seconds (runs_monitoring_interval example_config)"
    by (simp add: timedelta_seconds_def example_config_def)
  show ?thesis
    using terminal_lock_debounced[OF h1 h2 h3 h4 h5 h6, of 7200000000 example_config "PStr ''n''"] h7
    by simp
qed

lemma logger_store_run: "logger (store_run r u p w) = logger w"
  by (simp add: store_run_def)

lemma logger_log_msg: "logger (log_msg lv m w) = logger w @ [(lv, m)]"
  by (simp add: log_msg_def)



text \<open>
  Claim C6, terminal override. A run whose stored state is terminal is observed with a
  different terminal state: the new state is stored over the old one,
  \<^verbatim>\<open>last_update\<close> becomes \<open>now\<close>, the call returns \<open>(True, run_state)\<close> and the
  warning \<^verbatim>\<open>Run record has terminal state but monitoring found different state\<close> is
  logged before the write.
\<close>

theorem terminal_override:
  assumes "state_of (examined project uid run search_run w) = Some (PStr s)"
    and "s \<noteq> []"
    and "s \<in> set (terminal_states cs)"
    and "s' \<in> set (terminal_states cs)"
    and "s' \<noteq> s"
  shows "fst (ensure_run_state cfg cs now project uid name (PStr s') run search_run w)
           = Inr (True, PStr s')
       \<and> stored_state project uid
            (snd (snd (ensure_run_state cfg cs now project uid name (PStr s') run search_run w)))
           = Some (PStr s')
       \<and> stored_last_update project uid
            (snd (snd (ensure_run_state cfg cs now project uid name (PStr s') run search_run w)))
           = Some (PIsoStr now)
       \<and> logger (snd (snd (ensure_run_state cfg cs now project uid name (PStr s') run search_run w)))
           = logger w @
             [(Warning, ''Run record has terminal state but monitoring found different state on runtime resource. Changing''),
              (Info, ''Updating run state'')]"
proof -
  let ?r = "examined project uid run search_run w"
  let ?wx = "log_msg Warning
      ''Run record has terminal state but monitoring found different state on runtime resource. Changing'' w"
  have pin: "py_in (PStr s) (terminal_states cs)" "py_in (PStr s') (terminal_states cs)"
    using assms(3,4) by (simp_all add: py_in_def)
  have ev: "ensure_run_state cfg cs now project uid name (PStr s') run search_run w =
      update_run_state now project uid (PStr s') ?r ?wx"
    using ensure_run_state_found[OF assms(1), of cfg cs now name "PStr s'"] assms(2,5) pin
    by (simp add: Let_def)
  obtain run' where up: "update_run_state now project uid (PStr s') ?r ?wx
        = (Inr (True, PStr s'), run', store_run run' uid project (log_msg Info ''Updating run state'' ?wx))"
      "state_of run' = Some (PStr s')" "last_update_of run' = Some (PIsoStr now)"
    using update_run_state_ok[OF assms(1)] by blast
  show ?thesis
    unfolding ev using up by (simp add: stored_state_store logger_store_run logger_log_msg)
qed

text \<open>C6 at a concrete input: a run stored as \<open>completed\<close> is observed as \<open>error\<close>.\<close>

theorem terminal_override_witness:
  "fst (ensure_run_state example_config example_constants 7200000000 (PStr ''p'') (PStr ''u1'')
          (PStr ''n'') (PStr ''error'') PNone True
          (example_world [example_run ''completed'' (PIsoStr 7190000000)] []))
     = Inr (True, PStr ''error'')
   \<and> stored_state (PStr ''p'') (PStr ''u1'')
        (snd (snd (ensure_run_state example_config example_constants 7200000000 (PStr ''p'')
          (PStr ''u1'') (PStr ''n'') (PStr ''error'') PNone True
          (example_world [example_run ''completed'' (PIsoStr 7190000000)] []))))
     = Some (PStr ''error'')"
proof -
  let ?w = "example_world [example_run ''completed'' (PIsoStr 7190000000)] []"
  have h1: "state_of (examined (PStr ''p'') (PStr ''u1'') PNone True ?w) = Some (PStr ''completed'')"
    by (simp add: example_world_examined example_run_obs)
  have h2: "''completed'' \<noteq> []" by simp
  have h3: "''completed'' \<in> set (terminal_states example_constants)"
    by (simp add: example_constants_def)
  have h4: "''error'' \<in> set (terminal_states example_constants)"
    by (simp add: example_constants_def)
  have h5: "''error'' \<noteq> ''completed''" by simp
  show ?thesis
    using terminal_override[OF h1 h2 h3 h4 h5, of example_config 7200000000 "PStr ''n''"]
    by simp
qed





lemma ensure_run_state_not_found:
  assumes "\<not> truthy (examined project uid run search_run w)"
  shows "ensure_run_state cfg cs now project uid name run_state run search_run w =
     (Inr (True, run_state),
      PDict [(''metadata'', PDict [(''project'', project), (''name'', name), (''uid'', uid)]),
             (''status'', PDict [(''state'', run_state), (''last_update'', PIsoStr now)])],
      store_run
        (PDict [(''metadata'', PDict [(''project'', project), (''name'', name), (''uid'', uid)]),
                (''status'', PDict [(''state'', run_state), (''last_update'', PIsoStr now)])])
        uid project
        (log_msg Info ''Updating run state''
           (log_msg Warning ''Run not found. A new run will be created'' w)))"
  unfolding ensure_run_state_def Let_def examined_def[symmetric]
  using assms by (simp add: update_run_state_def Let_def)

lemma store_calls_store_run:
  "store_calls (store_run r u p w) = store_calls w @ [(p, u, r)]"
  by (simp add: store_run_def)

lemma store_calls_log_msg: "store_calls (log_msg lv m w) = store_calls w"
  by (simp add: log_msg_def)

text \<open>
  Claim C10. When the run database has no record for the project and uid
  (\<^verbatim>\<open>read_run\<close> raises \<^verbatim>\<open>MLRunNotFoundError\<close>) or returns an empty dictionary, the
  reconciler does not fail: it stores a new record made of the metadata
  \<^verbatim>\<open>{project, name, uid}\<close> and a status holding the observed state and \<open>now\<close> as
  \<^verbatim>\<open>last_update\<close>, by one \<^verbatim>\<open>store_run\<close> call, and returns \<open>(True, run_state)\<close>.
\<close>

theorem creates_missing_run:
  assumes "stored_run project uid w = None \<or> stored_run project uid w = Some (PDict [])"
  shows "fst (ensure_run_state cfg cs now project uid name run_state run True w)
           = Inr (True, run_state)
       \<and> stored_run project uid
            (snd (snd (ensure_run_state cfg cs now project uid name run_state run True w)))
           = Some (PDict [(''metadata'', PDict [(''project'', project), (''name'', name), (''uid'', uid)]),
                          (''status'', PDict [(''state'', run_state), (''last_update'', PIsoStr now)])])
       \<and> store_calls (snd (snd (ensure_run_state cfg cs now project uid name run_state run True w)))
           = store_calls w @
             [(project, uid,
               PDict [(''metadata'', PDict [(''project'', project), (''name'', name), (''uid'', uid)]),
                      (''status'', PDict [(''state'', run_state), (''last_update'', PIsoStr now)])])]"
proof -
  have "\<not> truthy (examined project uid run True w)"
    using assms by (auto simp: examined_def read_run_def stored_run_def)
  then show ?thesis
    by (simp add: ensure_run_state_not_found stored_run_store store_calls_store_run
        store_calls_log_msg)
qed

text \<open>C10 at a concrete input: an empty run database.\<close>

theorem creates_missing_run_witness:
  "fst (ensure_run_state example_config example_constants 7200000000 (PStr ''p'') (PStr ''u1'')
          (PStr ''n'') (PStr ''running'') PNone True (example_world [] []))
     = Inr (True, PStr ''running'')
   \<and> runs (snd (snd (ensure_run_state example_config example_constants 7200000000 (PStr ''p'')
          (PStr ''u1'') (PStr ''n'') (PStr ''running'') PNone True (example_world [] []))))
     = [((PStr ''p'', PStr ''u1''),
         PDict [(''metadata'', PDict [(''project'', PStr ''p''), (''name'', PStr ''n''), (''uid'', PStr ''u1'')]),
                (''status'', PDict [(''state'', PStr ''running''), (''last_update'', PIsoStr 7200000000)])])]"
proof -
  have h: "stored_run (PStr ''p'') (PStr ''u1'') (example_world [] []) = None
           \<or> stored_run (PStr ''p'') (PStr ''u1'') (example_world [] []) = Some (PDict [])"
    by (simp add: stored_run_def example_world_def)
  have r: "runs (snd (snd (ensure_run_state example_config example_constants 7200000000 (PStr ''p'')
          (PStr ''u1'') (PStr ''n'') (PStr ''running'') PNone True (example_world [] []))))
     = [((PStr ''p'', PStr ''u1''),
         PDict [(''metadata'', PDict [(''project'', PStr ''p''), (''name'', PStr ''n''), (''uid'', PStr ''u1'')]),
                (''status'', PDict [(''state'', PStr ''running''), (''last_update'', PIsoStr 7200000000)])])]"
    by (simp add: ensure_run_state_def example_world_def read_run_def update_run_state_def
        store_run_def log_msg_def Let_def)
  show ?thesis
    using creates_missing_run[OF h, of example_config example_constants 7200000000 "PStr ''n''"
        "PStr ''running''" PNone] r
    by simp
qed

section \<open>Properties of the stuck-run check\<close>

lemma set_status_ok3:
  assumes "state_of run = Some v0"
  shows "\<exists>r. set_status run k v = Inr r
           \<and> state_of r = (if k = ''state'' then Some v else state_of run)
           \<and> last_update_of r = (if k = ''last_update'' then Some v else last_update_of run)
           \<and> reason_of r = (if k = ''reason'' then Some v else reason_of run)"
  using assms
  by (rule state_of_dict)
     (auto simp: state_of_def last_update_of_def reason_of_def update_conv' split: option.splits)

lemma orphan_error_updates:
  assumes "state_of run = Some v0"
  shows "\<exists>r. set_status_all run [(''state'', e), (''reason'', rs), (''last_update'', lu)] = (None, r)
          \<and> state_of r = Some e \<and> reason_of r = Some rs \<and> last_update_of r = Some lu"
proof -
  obtain r1 where r1: "set_status run ''state'' e = Inr r1" "state_of r1 = Some e"
    using set_status_ok3[OF assms, of "''state''" e] by auto
  obtain r2 where r2: "set_status r1 ''reason'' rs = Inr r2" "state_of r2 = Some e"
      "reason_of r2 = Some rs"
    using set_status_ok3[OF r1(2), of "''reason''" rs] r1(2) by auto
  obtain r3 where r3: "set_status r2 ''last_update'' lu = Inr r3" "state_of r3 = Some e"
      "reason_of r3 = Some rs" "last_update_of r3 = Some lu"
    using set_status_ok3[OF r2(2), of "''last_update''" lu] r2 by auto
  show ?thesis using r1 r2 r3 by simp
qed

lemma last_update_only:
  assumes "state_of run = Some v0"
  shows "\<exists>r. set_status_all run [(''last_update'', lu)] = (None, r)
          \<and> state_of r = Some v0 \<and> reason_of r = reason_of run \<and> last_update_of r = Some lu"
  using set_status_ok3[OF assms, of "''last_update''" lu] assms by auto


lemma stored_reason_store:
  "stored_reason project uid (store_run run uid project w) = reason_of run"
  by (simp add: stored_reason_def stored_run_store)

lemma runs_log_msg: "runs (log_msg lv m w) = runs w"
  by (simp add: log_msg_def)

lemma not_stuck_eval:
  assumes "state_of run = Some (PStr s)" and "s \<noteq> []"
    and "s \<in> set (non_terminal_states cs)"
    and "resource_found m project run_uid = Inr False"
    and "last_update_of run = Some lu"
    and "lu = PNone \<or> lu = PIsoStr t"
  shows "ensure_run_not_stuck_on_non_terminal_state cfg cs now project run_uid run m w =
     (if lu = PNone then
        store_status_updates project run_uid run [(''last_update'', PIsoStr now)]
          (log_msg Info
             ''Runs monitoring found run in non-terminal state without last update time set, updating last update time to now, to be able to evaluate next time if something changed''
             w)
      else if t > now - timedelta_seconds (runs_monitoring_missing_runtime_resources_debouncing_interval cfg) then
        (Inr (), run,
         log_msg Warning
           ''Monitoring did not discover a runtime resource that corresponded to a run in a non-terminal state. but record has recently updated. Debouncing''
           w)
      else
        store_status_updates project run_uid run
          [(''state'', PStr (run_state_error cs)),
           (''reason'', PStr ''A runtime resource related to this run could not be found''),
           (''last_update'', PIsoStr now)]
          (log_msg Info ''Updating run state'' w))"
proof -
  obtain st where st: "py_get run (PStr ''status'') (PDict []) = Inr st"
     and sv: "py_get st (PStr ''state'') PNone = Inr (PStr s)"
    using state_of_status[OF assms(1)] by blast
  have lu: "py_get st (PStr ''last_update'') PNone = Inr lu"
    using assms(5) st by (auto simp: last_update_of_def split: sum.splits)
  have pin: "py_in (PStr s) (non_terminal_states cs)" using assms(3) by (simp add: py_in_def)
  show ?thesis
    using st sv lu pin assms(2,4,6)
    by (auto simp: ensure_run_not_stuck_on_non_terminal_state_def)
qed

text \<open>
  Claim C4, as the code has it. A run in a non-terminal state has no matching resource
  in the monitor loop's map. When its \<^verbatim>\<open>last_update\<close> is not later than \<open>now\<close> minus
  the debounce interval, the run is stored with state \<^verbatim>\<open>RunStates.error\<close>, the reason
  \<^verbatim>\<open>A runtime resource related to this run could not be found\<close> and \<^verbatim>\<open>last_update\<close>
  set to \<open>now\<close>. When \<^verbatim>\<open>last_update\<close> is later than that, nothing is stored and the
  run database is unchanged. When \<^verbatim>\<open>last_update\<close> is unset, the run is stored with
  \<^verbatim>\<open>last_update\<close> set to \<open>now\<close>, its state and reason as they were. No case raises.
\<close>

theorem orphan_debounce:
  assumes "state_of run = Some (PStr s)" and "s \<noteq> []"
    and "s \<in> set (non_terminal_states cs)"
    and "resource_found m project run_uid = Inr False"
    and "last_update_of run = Some lu"
    and "lu = PNone \<or> lu = PIsoStr t"
  shows "fst (ensure_run_not_stuck_on_non_terminal_state cfg cs now project run_uid run m w) = Inr ()
       \<and> (lu = PIsoStr t \<and> t \<le> now - timedelta_seconds (runs_monitoring_missing_runtime_resources_debouncing_interval cfg) \<longrightarrow>
            stored_state project run_uid (snd (snd (ensure_run_not_stuck_on_non_terminal_state cfg cs now project run_uid run m w))) = Some (PStr (run_state_error cs))
          \<and> stored_reason project run_uid (snd (snd (ensure_run_not_stuck_on_non_terminal_state cfg cs now project run_uid run m w)))
              = Some (PStr ''A runtime resource related to this run could not be found'')
          \<and> stored_last_update project run_uid (snd (snd (ensure_run_not_stuck_on_non_terminal_state cfg cs now project run_uid run m w))) = Some (PIsoStr now)
          \<and> store_calls (snd (snd (ensure_run_not_stuck_on_non_terminal_state cfg cs now project run_uid run m w))) = store_calls w @ [(project, run_uid, fst (snd (ensure_run_not_stuck_on_non_terminal_state cfg cs now project run_uid run m w)))])
       \<and> (lu = PIsoStr t \<and> t > now - timedelta_seconds (runs_monitoring_missing_runtime_resources_debouncing_interval cfg) \<longrightarrow>
            runs (snd (snd (ensure_run_not_stuck_on_non_terminal_state cfg cs now project run_uid run m w))) = runs w
          \<and> store_calls (snd (snd (ensure_run_not_stuck_on_non_terminal_state cfg cs now project run_uid run m w))) = store_calls w)
       \<and> (lu = PNone \<longrightarrow>
            stored_state project run_uid (snd (snd (ensure_run_not_stuck_on_non_terminal_state cfg cs now project run_uid run m w))) = Some (PStr s)
          \<and> stored_reason project run_uid (snd (snd (ensure_run_not_stuck_on_non_terminal_state cfg cs now project run_uid run m w))) = reason_of run
          \<and> stored_last_update project run_uid (snd (snd (ensure_run_not_stuck_on_non_terminal_state cfg cs now project run_uid run m w))) = Some (PIsoStr now)
          \<and> store_calls (snd (snd (ensure_run_not_stuck_on_non_terminal_state cfg cs now project run_uid run m w))) = store_calls w @ [(project, run_uid, fst (snd (ensure_run_not_stuck_on_non_terminal_state cfg cs now project run_uid run m w)))])"
proof -
  note ev = not_stuck_eval[OF assms, of cfg now]
  obtain r3 where r3:
    "set_status_all run [(''state'', PStr (run_state_error cs)),
       (''reason'', PStr ''A runtime resource related to this run could not be found''),
       (''last_update'', PIsoStr now)] = (None, r3)"
    "state_of r3 = Some (PStr (run_state_error cs))"
    "reason_of r3 = Some (PStr ''A runtime resource related to this run could not be found'')"
    "last_update_of r3 = Some (PIsoStr now)"
    using orphan_error_updates[OF assms(1)] by blast
  obtain r1 where r1:
    "set_status_all run [(''last_update'', PIsoStr now)] = (None, r1)"
    "state_of r1 = Some (PStr s)" "reason_of r1 = reason_of run"
    "last_update_of r1 = Some (PIsoStr now)"
    using last_update_only[OF assms(1)] by blast
  show ?thesis
  proof (cases "lu = PNone")
    case True
    then have "ensure_run_not_stuck_on_non_terminal_state cfg cs now project run_uid run m w = (Inr (), r1, store_run r1 run_uid project (log_msg Info
             ''Runs monitoring found run in non-terminal state without last update time set, updating last update time to now, to be able to evaluate next time if something changed''
             w))"
      using ev r1(1) by (simp add: store_status_updates_def)
    then show ?thesis
      using True r1
      by (simp add: stored_state_store stored_reason_store store_calls_store_run
          store_calls_log_msg)
  next
    case False
    then have lt: "lu = PIsoStr t" using assms(6) by simp
    show ?thesis
    proof (cases "t > now - timedelta_seconds (runs_monitoring_missing_runtime_resources_debouncing_interval cfg)")
      case True
      then have "ensure_run_not_stuck_on_non_terminal_state cfg cs now project run_uid run m w = (Inr (), run, log_msg Warning
           ''Monitoring did not discover a runtime resource that corresponded to a run in a non-terminal state. but record has recently updated. Debouncing''
           w)"
        using ev lt by simp
      then show ?thesis
        using True lt by (simp add: runs_log_msg store_calls_log_msg)
    next
      case False
      then have "ensure_run_not_stuck_on_non_terminal_state cfg cs now project run_uid run m w = (Inr (), r3, store_run r3 run_uid project (log_msg Info ''Updating run state'' w))"
        using ev lt r3(1) by (simp add: store_status_updates_def)
      then show ?thesis
        using False lt r3
        by (simp add: stored_state_store stored_reason_store store_calls_store_run
            store_calls_log_msg)
    qed
  qed
qed


text \<open>
  Claim C4 as stated names the reason \<^verbatim>\<open>no matching compute resource found\<close>. On the
  spec's scenario (a run \<open>running\<close>, last updated two hours before \<open>now\<close>, a debounce
  interval of ten minutes, no resource) the stored state is \<open>error\<close> and the stored reason
  is the source's own sentence, not the one the claim quotes.
\<close>

theorem orphan_debounce_counterexample:
  "state_of (example_run ''running'' (PIsoStr 0)) = Some (PStr ''running'')
   \<and> ''running'' \<in> set (non_terminal_states example_constants)
   \<and> resource_found [] (PStr ''p'') (PStr ''u1'') = Inr False
   \<and> (0::int) \<le> 7200000000 - timedelta_seconds
         (runs_monitoring_missing_runtime_resources_debouncing_interval example_config)
   \<and> stored_state (PStr ''p'') (PStr ''u1'')
        (snd (snd (ensure_run_not_stuck_on_non_terminal_state example_config example_constants
           7200000000 (PStr ''p'') (PStr ''u1'') (example_run ''running'' (PIsoStr 0)) []
           (example_world [example_run ''running'' (PIsoStr 0)] []))))
       = Some (PStr ''error'')
   \<and> stored_reason (PStr ''p'') (PStr ''u1'')
        (snd (snd (ensure_run_not_stuck_on_non_terminal_state example_config example_constants
           7200000000 (PStr ''p'') (PStr ''u1'') (example_run ''running'' (PIsoStr 0)) []
           (example_world [example_run ''running'' (PIsoStr 0)] []))))
       = Some (PStr ''A runtime resource related to this run could not be found'')
   \<and> stored_reason (PStr ''p'') (PStr ''u1'')
        (snd (snd (ensure_run_not_stuck_on_non_terminal_state example_config example_constants
           7200000000 (PStr ''p'') (PStr ''u1'') (example_run ''running'' (PIsoStr 0)) []
           (example_world [example_run ''running'' (PIsoStr 0)] []))))
       \<noteq> Some (PStr ''no matching compute resource found'')"
  by (simp add: ensure_run_not_stuck_on_non_terminal_state_def example_config_def
      example_constants_def example_world_def example_run_def py_in_def resource_found_def
      timedelta_seconds_def store_status_updates_def store_run_def log_msg_def stored_run_def
      stored_state_def stored_reason_def state_of_def reason_of_def)

text \<open>
  C4 at concrete inputs: last update two hours old, last update 200 seconds old, and no
  last update, with a debounce interval of ten minutes.
\<close>

theorem orphan_debounce_witness:
  "stored_state (PStr ''p'') (PStr ''u1'')
        (snd (snd (ensure_run_not_stuck_on_non_terminal_state example_config example_constants
           7200000000 (PStr ''p'') (PStr ''u1'') (example_run ''running'' (PIsoStr 0)) []
           (example_world [example_run ''running'' (PIsoStr 0)] []))))
       = Some (PStr ''error'')
   \<and> stored_last_update (PStr ''p'') (PStr ''u1'')
        (snd (snd (ensure_run_not_stuck_on_non_terminal_state example_config example_constants
           7200000000 (PStr ''p'') (PStr ''u1'') (example_run ''running'' (PIsoStr 0)) []
           (example_world [example_run ''running'' (PIsoStr 0)] []))))
       = Some (PIsoStr 7200000000)
   \<and> store_calls
        (snd (snd (ensure_run_not_stuck_on_non_terminal_state example_config example_constants
           7200000000 (PStr ''p'') (PStr ''u1'') (example_run ''running'' (PIsoStr 7000000000)) []
           (example_world [example_run ''running'' (PIsoStr 7000000000)] [])))) = []
   \<and> stored_state (PStr ''p'') (PStr ''u1'')
        (snd (snd (ensure_run_not_stuck_on_non_terminal_state example_config example_constants
           7200000000 (PStr ''p'') (PStr ''u1'') (example_run ''running'' PNone) []
           (example_world [example_run ''running'' PNone] []))))
       = Some (PStr ''running'')
   \<and> stored_last_update (PStr ''p'') (PStr ''u1'')
        (snd (snd (ensure_run_not_stuck_on_non_terminal_state example_config example_constants
           7200000000 (PStr ''p'') (PStr ''u1'') (example_run ''running'' PNone) []
           (example_world [example_run ''running'' PNone] []))))
       = Some (PIsoStr 7200000000)"
proof -
  have h2: "''running'' \<noteq> []" by simp
  have h3: "''running'' \<in> set (non_terminal_states example_constants)"
    by (simp add: example_constants_def)
  have h4: "resource_found [] (PStr ''p'') (PStr ''u1'') = Inr False"
    by (simp add: resource_found_def)
  have d: "timedelta_seconds
         (runs_monitoring_missing_runtime_resources_debouncing_interval example_config) = 600000000"
    by (simp add: timedelta_seconds_def example_config_def)
  have e: "run_state_error example_constants = ''error''" by (simp add: example_constants_def)
  have sc: "\<And>r. store_calls (example_world [r] []) = []" by (simp add: example_world_def)
  have a: "PIsoStr 0 = PNone \<or> PIsoStr 0 = PIsoStr 0" by simp
  have b: "PIsoStr 7000000000 = PNone \<or> PIsoStr 7000000000 = PIsoStr 7000000000" by simp
  have c: "PNone = PNone \<or> PNone = PIsoStr 0" by simp
  note A = orphan_debounce[where cfg = example_config and now = 7200000000
      and w = "example_world [example_run ''running'' (PIsoStr 0)] []",
      OF example_run_obs(1) h2 h3 h4 example_run_obs(2) a]
  note B = orphan_debounce[where cfg = example_config and now = 7200000000
      and w = "example_world [example_run ''running'' (PIsoStr 7000000000)] []",
      OF example_run_obs(1) h2 h3 h4 example_run_obs(2) b]
  note C = orphan_debounce[where cfg = example_config and now = 7200000000
      and w = "example_world [example_run ''running'' (PNone)] []",
      OF example_run_obs(1) h2 h3 h4 example_run_obs(2) c]
  show ?thesis
    using A B C by (simp add: d e sc)
qed

section \<open>Properties of the run listing and of the status resolver\<close>

text \<open>
  Claim C9 on the code. The run database lists two runs of project \<open>p\<close> with the same
  uid \<open>u1\<close>. The first is put in the map; at the second the source evaluates
  \<^verbatim>\<open>current_run.get(["metadata"])\<close>, whose key is a list, and the call raises TypeError
  instead of returning the map.
\<close>

theorem duplicate_runs_raise:
  "list_runs None (example_world [example_run ''running'' PNone, example_run ''pending'' PNone] [])
     = [example_run ''running'' PNone, example_run ''pending'' PNone]
   \<and> fst (list_runs_for_monitoring None
        (example_world [example_run ''running'' PNone, example_run ''pending'' PNone] []))
     = Inl TypeError"
  by (simp add: list_runs_for_monitoring_def list_runs_def example_world_def example_run_def
      list_runs_step_def setdefault_project_def inner_of_def set_inner_def)

text \<open>
  Claim C8 as stated fails: on a pod dictionary without \<^verbatim>\<open>status\<close>, and on one whose
  \<^verbatim>\<open>status\<close> has no \<^verbatim>\<open>phase\<close>, the status resolver raises KeyError.
\<close>

theorem resolver_raises_counterexample:
  "resolve_pod_status_info example_constants
      (PDict [(''metadata'', PDict [(''name'', PStr ''pod-1'')])]) = Inl KeyError
   \<and> resolve_pod_status_info example_constants
      (PDict [(''metadata'', PDict [(''name'', PStr ''pod-1'')]), (''status'', PDict [])])
       = Inl KeyError"
  by (simp add: resolve_pod_status_info_def)

text \<open>
  Claim C8, as the code has it. An exception of the status resolver on a resource does
  not end the pass. In the deletion loop the resource is not deleted, the warning
  \<^verbatim>\<open>Cleanup failed processing pod\<close> is logged and the loop goes on with the other
  resources. In the monitor loop over pods, for a resource whose labels give a project
  and a uid, the warning \<^verbatim>\<open>Failed monitoring runtime resource. Continuing\<close> is logged,
  the run map is left as it was and the loop goes on.
\<close>

theorem resolver_exception_isolated:
  assumes "resolve_pod_status_info cs resource = Inl e"
    and "pod_metadata_name resource = Inr n"
  shows "delete_pod_resources_loop cfg cs h now force grace_period (resource # rest) deleted_pods w
           = delete_pod_resources_loop cfg cs h now force grace_period rest deleted_pods
               (log_msg Warning ''Cleanup failed processing pod. Continuing'' w)
       \<and> (resolve_runtime_resource_run cfg resource = Inr (project, uid, name)
            \<and> truthy project \<and> truthy uid \<and> hashable project \<and> hashable uid \<longrightarrow>
          monitor_resources_loop cfg cs h now False (resource # rest) project_run_uid_map
              run_runtime_resources_map w
           = monitor_resources_loop cfg cs h now False rest project_run_uid_map
               (set_inner (setdefault_project run_runtime_resources_map project) project uid name)
               (log_msg Warning ''Failed monitoring runtime resource. Continuing'' w))"
  using assms
  by (simp add: delete_pod_resources_step_def cleanup_failed_def monitor_runtime_resource_def)

text \<open>C8 at a concrete input: a labelled pod dictionary without \<^verbatim>\<open>status\<close>, in both loops.\<close>

theorem resolver_exception_isolated_witness:
  "delete_pod_resources_loop example_config example_constants example_handler 0 False 60
      [PDict [(''metadata'', PDict [(''name'', PStr ''pod-1''),
                (''labels'', PDict [(''mlrun/project'', PStr ''p''), (''mlrun/uid'', PStr ''u1'')])])]]
      [] (example_world [] [])
     = (Inr [], log_msg Warning ''Cleanup failed processing pod. Continuing'' (example_world [] []))
   \<and> monitor_resources_loop example_config example_constants example_handler 0 False
      [PDict [(''metadata'', PDict [(''name'', PStr ''pod-1''),
                (''labels'', PDict [(''mlrun/project'', PStr ''p''), (''mlrun/uid'', PStr ''u1'')])])]]
      [] [] (example_world [] [])
     = (Inr ([], [(PStr ''p'', [(PStr ''u1'', PStr ''no-name'')])]),
        log_msg Warning ''Failed monitoring runtime resource. Continuing'' (example_world [] []))"
proof -
  let ?pod = "PDict [(''metadata'', PDict [(''name'', PStr ''pod-1''),
                (''labels'', PDict [(''mlrun/project'', PStr ''p''), (''mlrun/uid'', PStr ''u1'')])])]"
  have h1: "resolve_pod_status_info example_constants ?pod = Inl KeyError"
    by (simp add: resolve_pod_status_info_def)
  have h2: "pod_metadata_name ?pod = Inr (PStr ''pod-1'')"
    by (simp add: pod_metadata_name_def)
  have h3: "resolve_runtime_resource_run example_config ?pod
      = Inr (PStr ''p'', PStr ''u1'', PStr ''no-name'')"
    by (simp add: resolve_runtime_resource_run_def)
  have h4: "set_inner (setdefault_project [] (PStr ''p'')) (PStr ''p'') (PStr ''u1'') (PStr ''no-name'')
      = [(PStr ''p'', [(PStr ''u1'', PStr ''no-name'')])]"
    by (simp add: set_inner_def setdefault_project_def inner_of_def)
  show ?thesis
    using resolver_exception_isolated[OF h1 h2, of example_config example_handler 0 False 60 "[]" "[]"
        "example_world [] []" "PStr ''p''" "PStr ''u1''" "PStr ''no-name''" "[]" "[]"] h3 h4
    by simp
qed

section \<open>Properties of the deletion engine\<close>

lemma store_calls_delete_pod: "store_calls (delete_pod n w) = store_calls w"
  by (simp add: delete_pod_def)

lemma runs_delete_pod: "runs (delete_pod n w) = runs w"
  by (simp add: delete_pod_def)

lemma stored_logs_delete_pod: "stored_logs (delete_pod n w) = stored_logs w"
  by (simp add: delete_pod_def)

lemma stored_logs_log_msg: "stored_logs (log_msg lv m w) = stored_logs w"
  by (simp add: log_msg_def)

lemma k8s_calls_delete_pod: "k8s_calls (delete_pod n w) = k8s_calls w @ [DeletePod n]"
  by (simp add: delete_pod_def)

lemma logger_delete_pod: "logger (delete_pod n w) = logger w"
  by (simp add: delete_pod_def)

lemma k8s_calls_log_msg: "k8s_calls (log_msg lv m w) = k8s_calls w"
  by (simp add: log_msg_def)

text \<open>
  Claim C3, as the code has it. A pod passes the filter of the deletion loop, the kind is
  coupled to runs and does not expect pods without uid, and the labels give no uid. The
  pre-deletion run actions raise ValueError after their warning, so no run is reconciled
  and no log is stored; the loop catches the exception, logs
  \<^verbatim>\<open>Failure in pod run pre-deletion actions. Continuing\<close>, and deletes the pod all the
  same. The logger receives exactly these two warnings, in this order.
\<close>

theorem uidless_pod_is_deleted:
  assumes "resolve_pod_status_info cs pod = Inr (in_terminal_state, last_update, run_state)"
    and "skip_pod now force grace_period in_terminal_state last_update = Inr False"
    and "resolve_runtime_resource_run cfg pod = Inr (project, uid, name)"
    and "\<not> truthy uid"
    and "are_resources_coupled_to_run_object h"
    and "\<not> expect_pods_without_uid h"
    and "pod_metadata_name pod = Inr n"
  shows "pre_deletion_runtime_resource_run_actions cfg cs h now pod run_state w
           = (Inl ValueError,
              log_msg Warning
                ''Could not resolve run uid from runtime resource. Skipping pre-deletion actions'' w)
       \<and> fst (delete_pod_resources_step cfg cs h now force grace_period pod w) = Inr True
       \<and> k8s_calls (snd (delete_pod_resources_step cfg cs h now force grace_period pod w))
           = k8s_calls w @ [DeletePod n]
       \<and> store_calls (snd (delete_pod_resources_step cfg cs h now force grace_period pod w))
           = store_calls w
       \<and> runs (snd (delete_pod_resources_step cfg cs h now force grace_period pod w)) = runs w
       \<and> stored_logs (snd (delete_pod_resources_step cfg cs h now force grace_period pod w))
           = stored_logs w
       \<and> logger (snd (delete_pod_resources_step cfg cs h now force grace_period pod w))
           = logger w @
             [(Warning,
               ''Could not resolve run uid from runtime resource. Skipping pre-deletion actions''),
              (Warning, ''Failure in pod run pre-deletion actions. Continuing'')]"
proof -
  have pre: "pre_deletion_runtime_resource_run_actions cfg cs h now pod run_state w
           = (Inl ValueError,
              log_msg Warning
                ''Could not resolve run uid from runtime resource. Skipping pre-deletion actions'' w)"
    using assms(3,4,6) by (simp add: pre_deletion_runtime_resource_run_actions_def)
  have step: "delete_pod_resources_step cfg cs h now force grace_period pod w
      = (Inr True,
         delete_pod n
           (log_msg Warning ''Failure in pod run pre-deletion actions. Continuing''
              (log_msg Warning
                 ''Could not resolve run uid from runtime resource. Skipping pre-deletion actions'' w)))"
    using assms(1,2,5,7) pre by (simp add: delete_pod_resources_step_def)
  show ?thesis
    using pre unfolding step
    by (simp add: k8s_calls_delete_pod store_calls_delete_pod runs_delete_pod k8s_calls_log_msg
        store_calls_log_msg runs_log_msg stored_logs_delete_pod stored_logs_log_msg
        logger_delete_pod logger_log_msg)
qed

text \<open>
  Claim C3 as stated fails: it promises that such a pod is not deleted. A succeeded pod
  without uid label, of a coupled kind that does not expect pods without uid, is in the
  list \<^verbatim>\<open>_delete_pod_resources\<close> returns and is gone from the cluster.
\<close>

theorem uidless_pod_counterexample:
  "are_resources_coupled_to_run_object example_handler
   \<and> \<not> expect_pods_without_uid example_handler
   \<and> resolve_runtime_resource_run example_config
        (example_pod ''pod-1'' [(''mlrun/project'', PStr ''p'')] ''Succeeded'' [0])
       = Inr (PStr ''p'', PNone, PStr ''no-name'')
   \<and> fst (delete_pod_resources example_config example_constants example_handler 7200000000
        ''mlrun/class=kubejob'' False None
        (example_world [] [example_pod ''pod-1'' [(''mlrun/project'', PStr ''p'')] ''Succeeded'' [0]]))
       = Inr [example_pod ''pod-1'' [(''mlrun/project'', PStr ''p'')] ''Succeeded'' [0]]
   \<and> pods (snd (delete_pod_resources example_config example_constants example_handler 7200000000
        ''mlrun/class=kubejob'' False None
        (example_world [] [example_pod ''pod-1'' [(''mlrun/project'', PStr ''p'')] ''Succeeded'' [0]])))
       = []"
  by (simp add: delete_pod_resources_def list_pods_def example_world_def example_pod_def
      example_handler_def example_config_def example_constants_def
      example_pod_phase_to_run_state_def delete_pod_resources_step_def
      resolve_pod_status_info_def py_in_def skip_pod_def timedelta_seconds_def
      pre_deletion_runtime_resource_run_actions_def resolve_runtime_resource_run_def
      pod_metadata_name_def delete_pod_def name_of_def log_msg_def wait_for_pods_deletion_def)

text \<open>C3 at a concrete input: the same pod, in the body of the deletion loop.\<close>

theorem uidless_pod_is_deleted_witness:
  "fst (delete_pod_resources_step example_config example_constants example_handler 7200000000
          False 60 (example_pod ''pod-1'' [(''mlrun/project'', PStr ''p'')] ''Succeeded'' [0])
          (example_world [] [example_pod ''pod-1'' [(''mlrun/project'', PStr ''p'')] ''Succeeded'' [0]]))
     = Inr True
   \<and> k8s_calls (snd (delete_pod_resources_step example_config example_constants example_handler
          7200000000 False 60
          (example_pod ''pod-1'' [(''mlrun/project'', PStr ''p'')] ''Succeeded'' [0])
          (example_world [] [example_pod ''pod-1'' [(''mlrun/project'', PStr ''p'')] ''Succeeded'' [0]])))
     = [DeletePod (PStr ''pod-1'')]
   \<and> logger (snd (delete_pod_resources_step example_config example_constants example_handler
          7200000000 False 60
          (example_pod ''pod-1'' [(''mlrun/project'', PStr ''p'')] ''Succeeded'' [0])
          (example_world [] [example_pod ''pod-1'' [(''mlrun/project'', PStr ''p'')] ''Succeeded'' [0]])))
     = [(Warning,
         ''Could not resolve run uid from runtime resource. Skipping pre-deletion actions''),
        (Warning, ''Failure in pod run pre-deletion actions. Continuing'')]"
proof -
  let ?pod = "example_pod ''pod-1'' [(''mlrun/project'', PStr ''p'')] ''Succeeded'' [0]"
  have h1: "resolve_pod_status_info example_constants ?pod = Inr (True, PTime 0, PStr ''completed'')"
    by (simp add: resolve_pod_status_info_def example_pod_def example_constants_def
        example_pod_phase_to_run_state_def py_in_def)
  have h2: "skip_pod 7200000000 False 60 True (PTime 0) = Inr False"
    by (simp add: skip_pod_def timedelta_seconds_def)
  have h3: "resolve_runtime_resource_run example_config ?pod = Inr (PStr ''p'', PNone, PStr ''no-name'')"
    by (simp add: resolve_runtime_resource_run_def example_pod_def)
  have h4: "\<not> truthy PNone" by simp
  have h5: "are_resources_coupled_to_run_object example_handler" by (simp add: example_handler_def)
  have h6: "\<not> expect_pods_without_uid example_handler" by (simp add: example_handler_def)
  have h7: "pod_metadata_name ?pod = Inr (PStr ''pod-1'')"
    by (simp add: pod_metadata_name_def example_pod_def)
  have k: "k8s_calls (example_world [] [?pod]) = []" by (simp add: example_world_def)
  have lg: "logger (example_world [] [?pod]) = []" by (simp add: example_world_def)
  show ?thesis
    using uidless_pod_is_deleted[OF h1 h2 h3 h4 h5 h6 h7, of "example_world [] [?pod]"] k lg
    by simp
qed

lemma latest_completion_from_time:
  "list_all (\<lambda>c. container_view_of c \<noteq> None) css \<Longrightarrow>
   latest_completion (PTime a) css
     = Inr (PTime (fold max (finished_times (map (\<lambda>c. the (container_view_of c)) css)) a))"
proof (induction css arbitrary: a)
  case Nil
  then show ?case by simp
next
  case (Cons c css)
  then obtain v where v: "container_view_of c = Some v" by auto
  have rest: "list_all (\<lambda>c. container_view_of c \<noteq> None) css" using Cons.prems by simp
  show ?case
  proof (cases v)
    case NotTerminated
    then show ?thesis
      using v Cons.IH[OF rest, of a]
      by (auto simp: container_view_of_def split: sum.splits if_splits pyval.splits)
  next
    case (FinishedAt t)
    then show ?thesis
      using v Cons.IH[OF rest, of a] Cons.IH[OF rest, of t]
      by (auto simp: container_view_of_def max_def split: sum.splits if_splits pyval.splits)
  qed
qed

lemma latest_completion_from_none:
  "list_all (\<lambda>c. container_view_of c \<noteq> None) css \<Longrightarrow>
   latest_completion PNone css
     = Inr (case finished_times (map (\<lambda>c. the (container_view_of c)) css) of
              [] \<Rightarrow> PNone
            | t # ts \<Rightarrow> PTime (Max (set (t # ts))))"
proof (induction css)
  case Nil
  then show ?case by simp
next
  case (Cons c css)
  then obtain v where v: "container_view_of c = Some v" by auto
  have rest: "list_all (\<lambda>c. container_view_of c \<noteq> None) css" using Cons.prems by simp
  show ?case
  proof (cases v)
    case NotTerminated
    then show ?thesis
      using v Cons.IH[OF rest]
      by (auto simp: container_view_of_def split: sum.splits if_splits pyval.splits)
  next
    case (FinishedAt t)
    have "latest_completion PNone (c # css) = latest_completion (PTime t) css"
      using v FinishedAt
      by (auto simp: container_view_of_def split: sum.splits if_splits pyval.splits)
    moreover have "fold max (finished_times (map (\<lambda>c. the (container_view_of c)) css)) t
        = Max (set (t # finished_times (map (\<lambda>c. the (container_view_of c)) css)))"
      by (simp only: Max.set_eq_fold)
    ultimately show ?thesis
      using v FinishedAt latest_completion_from_time[OF rest, of t]
      by simp
  qed
qed


lemma resolve_pod_status_info_view:
  assumes "pod_view cs pod = Some (phase, ts)"
  shows "\<exists>rs. resolve_pod_status_info cs pod =
           Inr (py_in phase (terminal_phases cs),
                (if py_in phase (terminal_phases cs)
                 then (case ts of [] \<Rightarrow> PNone | t # ts' \<Rightarrow> PTime (Max (set (t # ts'))))
                 else PNone),
                rs)"
proof -
  obtain status where st: "py_getitem pod ''status'' = Inr status"
    using assms by (auto simp: pod_view_def split: sum.splits)
  obtain rs where ph: "py_getitem status ''phase'' = Inr phase"
      and rs: "pod_phase_to_run_state cs phase = Inr rs"
    using assms st by (auto simp: pod_view_def split: sum.splits pyval.splits if_splits)
  obtain css where css: "py_get status (PStr ''container_statuses'') (PList []) = Inr (PList css)"
      and wf: "list_all (\<lambda>c. container_view_of c \<noteq> None) css"
      and ts: "ts = finished_times (map (\<lambda>c. the (container_view_of c)) css)"
    using assms st ph rs by (auto simp: pod_view_def split: sum.splits pyval.splits if_splits)
  show ?thesis
    using st ph rs css latest_completion_from_none[OF wf] ts
    by (simp add: resolve_pod_status_info_def)
qed

lemma skip_pod_selected:
  "skip_pod now False grace_period term
      (if term then (case ts of [] \<Rightarrow> PNone | t # ts' \<Rightarrow> PTime (Max (set (t # ts')))) else PNone)
     = Inr (\<not> (term \<and> (ts = [] \<or> now - Max (set ts) \<ge> timedelta_seconds grace_period)))"
  by (cases ts) (auto simp: skip_pod_def)

lemma completion_times_finished:
  "list_all (\<lambda>c. container_view_of c \<noteq> None) css \<Longrightarrow>
   concat (map completion_time_of css) = finished_times (map (\<lambda>c. the (container_view_of c)) css)"
proof (induction css)
  case Nil
  then show ?case by simp
next
  case (Cons c css)
  then obtain v where v: "container_view_of c = Some v" by auto
  then show ?case
    using Cons by (cases v) (simp_all add: completion_time_of_def)
qed

lemma pod_view_phase_times:
  assumes "pod_view cs pod = Some (phase, ts)"
  shows "phase_of pod = Some phase \<and> completion_times pod = ts"
proof -
  obtain status where st: "py_getitem pod ''status'' = Inr status"
    using assms by (auto simp: pod_view_def split: sum.splits)
  obtain rs where ph: "py_getitem status ''phase'' = Inr phase"
      and rs: "pod_phase_to_run_state cs phase = Inr rs"
    using assms st by (auto simp: pod_view_def split: sum.splits pyval.splits if_splits)
  obtain css where css: "py_get status (PStr ''container_statuses'') (PList []) = Inr (PList css)"
      and wf: "list_all (\<lambda>c. container_view_of c \<noteq> None) css"
      and ts: "ts = finished_times (map (\<lambda>c. the (container_view_of c)) css)"
    using assms st ph rs by (auto simp: pod_view_def split: sum.splits pyval.splits if_splits)
  show ?thesis
    using st ph css ts completion_times_finished[OF wf]
    by (simp add: phase_of_def completion_times_def)
qed

lemma delete_pod_resources_step_selected:
  assumes "pod_view cs pod = Some (phase, ts)" and "pod_metadata_name pod = Inr n"
  shows "fst (delete_pod_resources_step cfg cs h now False grace_period pod w)
           = Inr (grace_period_selected cs now grace_period pod)"
proof -
  obtain rs where r: "resolve_pod_status_info cs pod =
           Inr (py_in phase (terminal_phases cs),
                (if py_in phase (terminal_phases cs)
                 then (case ts of [] \<Rightarrow> PNone | t # ts' \<Rightarrow> PTime (Max (set (t # ts'))))
                 else PNone),
                rs)"
    using resolve_pod_status_info_view[OF assms(1)] by blast
  note sk = skip_pod_selected[of now grace_period "py_in phase (terminal_phases cs)" ts]
  have sel: "grace_period_selected cs now grace_period pod
      = (py_in phase (terminal_phases cs)
         \<and> (ts = [] \<or> now - Max (set ts) \<ge> timedelta_seconds grace_period))"
    using pod_view_phase_times[OF assms(1)] by (simp add: grace_period_selected_def)
  show ?thesis
  proof (cases "grace_period_selected cs now grace_period pod")
    case False
    then show ?thesis
      using r sk sel by (simp add: delete_pod_resources_step_def)
  next
    case True
    obtain a w1 where pre: "(if are_resources_coupled_to_run_object h
                    then pre_deletion_runtime_resource_run_actions cfg cs h now pod rs w
                    else (Inr (), w)) = (a, w1)"
      by (cases "(if are_resources_coupled_to_run_object h
                    then pre_deletion_runtime_resource_run_actions cfg cs h now pod rs w
                    else (Inr (), w))") auto
    have "fst (case (a, w1) of
                (Inl e, w1) \<Rightarrow>
                  (case pod_metadata_name pod of
                     Inl e' \<Rightarrow> cleanup_failed pod w1
                   | Inr n \<Rightarrow>
                       (Inr True,
                        delete_pod n
                          (log_msg Warning ''Failure in pod run pre-deletion actions. Continuing'' w1)))
              | (Inr u, w1) \<Rightarrow>
                  (case pod_metadata_name pod of
                     Inl e' \<Rightarrow> cleanup_failed pod w1
                   | Inr n \<Rightarrow> (Inr True, delete_pod n w1))) = Inr True"
      using assms(2) by (cases a) auto
    then show ?thesis
      using True r sk sel pre by (simp add: delete_pod_resources_step_def)
  qed
qed

text \<open>
  On a listing of pod dictionaries on which the resolver does not raise, the loop of
  \<^verbatim>\<open>_delete_pod_resources\<close> with \<^verbatim>\<open>force=false\<close> deletes exactly the pods the
  specification's filter selects, in listing order.
\<close>

lemma grace_period_filter_well_formed:
  assumes "\<forall>pod \<in> set listed. pod_view cs pod \<noteq> None \<and> pod_metadata_name pod = Inr (name_of pod)"
  shows "fst (delete_pod_resources_loop cfg cs h now False grace_period listed deleted_pods w)
           = Inr (deleted_pods @ filter (grace_period_selected cs now grace_period) listed)"
  using assms
proof (induction listed arbitrary: deleted_pods w)
  case Nil
  then show ?case by simp
next
  case (Cons pod rest)
  obtain phase ts where v: "pod_view cs pod = Some (phase, ts)"
    using Cons.prems by auto
  have n: "pod_metadata_name pod = Inr (name_of pod)" using Cons.prems by simp
  have rest: "\<forall>pod \<in> set rest. pod_view cs pod \<noteq> None \<and> pod_metadata_name pod = Inr (name_of pod)"
    using Cons.prems by simp
  obtain w' where step: "delete_pod_resources_step cfg cs h now False grace_period pod w
      = (Inr (grace_period_selected cs now grace_period pod), w')"
    using delete_pod_resources_step_selected[OF v n, of cfg h now grace_period w]
    by (cases "delete_pod_resources_step cfg cs h now False grace_period pod w") auto
  show ?case
    using step Cons.IH[OF rest]
    by (cases "grace_period_selected cs now grace_period pod") simp_all
qed

text \<open>
  Claim C5 on the code. A pod in phase \<open>Failed\<close> whose \<^verbatim>\<open>container_statuses\<close> is
  \<^verbatim>\<open>None\<close>, as the dictionary of a pod that never started a container has it: its phase
  is terminal and no container completion time is known, so the specification's filter
  selects it. In the source \<^verbatim>\<open>pod["status"].get("container_statuses", [])\<close> returns
  \<^verbatim>\<open>None\<close>, the \<^verbatim>\<open>for\<close> raises TypeError, the loop's \<^verbatim>\<open>except\<close> logs the warning, and
  the pod is not deleted, with \<^verbatim>\<open>force\<close> false or true.
\<close>

theorem terminal_pod_without_container_statuses_is_kept:
  "phase_of example_pod_without_container_statuses = Some (PStr ''Failed'')
   \<and> py_in (PStr ''Failed'') (terminal_phases example_constants)
   \<and> completion_times example_pod_without_container_statuses = []
   \<and> grace_period_selected example_constants 7200000000 60 example_pod_without_container_statuses
   \<and> resolve_pod_status_info example_constants example_pod_without_container_statuses
        = Inl TypeError
   \<and> delete_pod_resources_loop example_config example_constants example_handler 7200000000
        False 60 [example_pod_without_container_statuses] []
        (example_world [] [example_pod_without_container_statuses])
       = (Inr [],
          log_msg Warning ''Cleanup failed processing pod. Continuing''
            (example_world [] [example_pod_without_container_statuses]))
   \<and> delete_pod_resources_loop example_config example_constants example_handler 7200000000
        True 60 [example_pod_without_container_statuses] []
        (example_world [] [example_pod_without_container_statuses])
       = (Inr [],
          log_msg Warning ''Cleanup failed processing pod. Continuing''
            (example_world [] [example_pod_without_container_statuses]))"
  by (simp add: example_pod_without_container_statuses_def phase_of_def completion_times_def
      grace_period_selected_def example_constants_def example_pod_phase_to_run_state_def
      py_in_def resolve_pod_status_info_def delete_pod_resources_step_def cleanup_failed_def
      pod_metadata_name_def)

section \<open>Properties of the monitor loop\<close>


end
